theory Spec2Isabelle
  imports Main "HOL-Library.Sublist"
begin

section \<open>The store access layer of the Weaviate viewer\<close>

text \<open>
  A shallow embedding of \<^verbatim>\<open>src/renderer/lib/weaviate.ts\<close> (the access layer),
  \<^verbatim>\<open>src/renderer/lib/settings.ts\<close> with the settings handlers of the main process,
  and of the three callers that take part in its contracts: \<^verbatim>\<open>handleSave\<close> of the
  settings form, \<^verbatim>\<open>handleSubmit\<close> of the create-collection form and
  \<^verbatim>\<open>handleSearch\<close> of the search view.

  \<^item> Every \<^verbatim>\<open>async\<close> function is a function from the state of the world to a
    result and the new state. A thrown exception (a rejected promise) is \<open>Inl\<close> of the
    error, a returned value is \<open>Inr\<close> of it.
  \<^item> The world holds the persisted settings, the two module variables
    \<^verbatim>\<open>currentUrl\<close> and \<^verbatim>\<open>currentApiKey\<close>, and the list of the HTTP requests made
    so far. The store is a parameter: a function from the requests made so far and the
    request being made to what \<^verbatim>\<open>fetch\<close> gives back.
  \<^item> Values that come from the network are JSON values, read the way JavaScript reads
    them: a missing member is \<^verbatim>\<open>undefined\<close>, reading a member of \<^verbatim>\<open>undefined\<close> or
    \<^verbatim>\<open>null\<close> throws a \<^verbatim>\<open>TypeError\<close>. TypeScript's annotations are erased at run time
    and are not checks.
  \<^item> Text is ASCII: a character of a string is one code unit, and the case mappings and
    the white space of \<^verbatim>\<open>trim\<close> are those of ASCII. Numbers are integers.
  \<^item> Console output is left out.
\<close>

subsection \<open>Strings\<close>

definition is_space :: "char \<Rightarrow> bool" where
  "is_space c = (c \<in> set [CHR 0x09, CHR 0x0A, CHR 0x0B, CHR 0x0C, CHR 0x0D, CHR '' ''])"

text \<open>\<^verbatim>\<open>s.trim()\<close>\<close>

definition trim :: "string \<Rightarrow> string" where
  "trim s = rev (dropWhile is_space (rev (dropWhile is_space s)))"

definition lower_char :: "char \<Rightarrow> char" where
  "lower_char c =
     (case map_of (zip ''ABCDEFGHIJKLMNOPQRSTUVWXYZ'' ''abcdefghijklmnopqrstuvwxyz'') c of
        Some d \<Rightarrow> d
      | None \<Rightarrow> c)"

definition upper_char :: "char \<Rightarrow> char" where
  "upper_char c =
     (case map_of (zip ''abcdefghijklmnopqrstuvwxyz'' ''ABCDEFGHIJKLMNOPQRSTUVWXYZ'') c of
        Some d \<Rightarrow> d
      | None \<Rightarrow> c)"

definition toLowerCase :: "string \<Rightarrow> string" where
  "toLowerCase s = map lower_char s"

definition toUpperCase :: "string \<Rightarrow> string" where
  "toUpperCase s = map upper_char s"

text \<open>\<^verbatim>\<open>s.startsWith(p)\<close> and \<^verbatim>\<open>s.includes(p)\<close>\<close>

definition startsWith :: "string \<Rightarrow> string \<Rightarrow> bool" where
  "startsWith s p = prefix p s"

definition includes_str :: "string \<Rightarrow> string \<Rightarrow> bool" where
  "includes_str s p = sublist p s"

text \<open>\<^verbatim>\<open>s.replace(p, r)\<close> for a string \<open>p\<close>: the first occurrence only.\<close>

fun replace :: "string \<Rightarrow> string \<Rightarrow> string \<Rightarrow> string" where
  "replace [] p r = (if p = [] then r else [])"
| "replace (c # cs) p r =
     (if prefix p (c # cs) then r @ drop (length p) (c # cs) else c # replace cs p r)"

text \<open>\<^verbatim>\<open>s.replace(/\/$/, '')\<close>: one slash at the end of the string is removed.\<close>

definition removeTrailingSlash :: "string \<Rightarrow> string" where
  "removeTrailingSlash s = (if s \<noteq> [] \<and> last s = CHR ''/'' then butlast s else s)"

text \<open>\<^verbatim>\<open>xs.join(sep)\<close> on strings\<close>

fun join :: "string \<Rightarrow> string list \<Rightarrow> string" where
  "join sep [] = []"
| "join sep [x] = x"
| "join sep (x # y # ys) = x @ sep @ join sep (y # ys)"

text \<open>The decimal numeral of an integer, as a template literal prints it.\<close>

fun digits :: "nat \<Rightarrow> string" where
  "digits n =
     (if n < 10 then [''0123456789'' ! n]
      else digits (n div 10) @ [''0123456789'' ! (n mod 10)])"

declare digits.simps [simp del]

definition numberToString :: "int \<Rightarrow> string" where
  "numberToString i = (if i < 0 then ''-'' @ digits (nat (- i)) else digits (nat i))"

subsection \<open>JSON values as JavaScript sees them\<close>

datatype json =
    JNull
  | JBool bool
  | JNumber int
  | JString string
  | JArray "json list"
  | JObject "(string \<times> json) list"

text \<open>A JavaScript value is a JSON value or \<^verbatim>\<open>undefined\<close>, which is \<open>None\<close>.\<close>

type_synonym jsval = "json option"

fun truthy :: "jsval \<Rightarrow> bool" where
  "truthy None = False"
| "truthy (Some JNull) = False"
| "truthy (Some (JBool b)) = b"
| "truthy (Some (JNumber n)) = (n \<noteq> 0)"
| "truthy (Some (JString s)) = (s \<noteq> [])"
| "truthy (Some (JArray xs)) = True"
| "truthy (Some (JObject kvs)) = True"

fun nullish :: "jsval \<Rightarrow> bool" where
  "nullish None = True"
| "nullish (Some JNull) = True"
| "nullish (Some v) = False"

text \<open>
  An array index as a property key: \<^verbatim>\<open>"0"\<close>, or digits that do not start with
  \<^verbatim>\<open>0\<close>.
\<close>

definition digit_value :: "char \<Rightarrow> nat option" where
  "digit_value c = map_of (zip ''0123456789'' [0 ..< 10]) c"

fun index_value :: "nat \<Rightarrow> string \<Rightarrow> nat option" where
  "index_value acc [] = Some acc"
| "index_value acc (c # cs) =
     (case digit_value c of None \<Rightarrow> None | Some d \<Rightarrow> index_value (10 * acc + d) cs)"

definition index_of_key :: "string \<Rightarrow> nat option" where
  "index_of_key k =
     (if k = [] then None
      else if hd k = CHR ''0'' \<and> tl k \<noteq> [] then None
      else index_value 0 k)"

text \<open>
  \<^verbatim>\<open>v[k]\<close> for a value \<open>v\<close> that is neither \<^verbatim>\<open>undefined\<close> nor \<^verbatim>\<open>null\<close>: the own
  members of an object, the elements and the length of an array or a string; the methods a
  value inherits are not JSON values and are not modelled.
\<close>

fun member :: "json \<Rightarrow> string \<Rightarrow> jsval" where
  "member (JObject kvs) k = map_of kvs k"
| "member (JArray xs) k =
     (if k = ''length'' then Some (JNumber (int (length xs)))
      else case index_of_key k of
             None \<Rightarrow> None
           | Some i \<Rightarrow> if i < length xs then Some (xs ! i) else None)"
| "member (JString s) k =
     (if k = ''length'' then Some (JNumber (int (length s)))
      else case index_of_key k of
             None \<Rightarrow> None
           | Some i \<Rightarrow> if i < length s then Some (JString [s ! i]) else None)"
| "member v k = None"

subsection \<open>Errors\<close>

text \<open>
  \<open>Error m\<close> is \<^verbatim>\<open>new Error(m)\<close>. \<open>TypeError\<close> is what the engine throws on reading a
  member of \<^verbatim>\<open>undefined\<close> or \<^verbatim>\<open>null\<close>, on calling what is not a function and on
  iterating what is not iterable, and what \<^verbatim>\<open>fetch\<close> rejects with when the request
  cannot be made. \<open>SyntaxError\<close> is what \<^verbatim>\<open>response.json()\<close> rejects with on a body
  that is not JSON.
\<close>

datatype error = Error string | TypeError | SyntaxError

text \<open>\<^verbatim>\<open>v.k\<close> and \<^verbatim>\<open>v?.k\<close>\<close>

definition get_prop :: "jsval \<Rightarrow> string \<Rightarrow> error + jsval" where
  "get_prop v k = (case v of None \<Rightarrow> Inl TypeError | Some JNull \<Rightarrow> Inl TypeError | Some j \<Rightarrow> Inr (member j k))"

definition opt_prop :: "jsval \<Rightarrow> string \<Rightarrow> jsval" where
  "opt_prop v k = (case v of None \<Rightarrow> None | Some JNull \<Rightarrow> None | Some j \<Rightarrow> member j k)"

text \<open>\<^verbatim>\<open>String(v)\<close>, which a template literal and \<^verbatim>\<open>new Error(v)\<close> apply.\<close>

fun toString :: "json \<Rightarrow> string" where
  "toString JNull = ''null''"
| "toString (JBool b) = (if b then ''true'' else ''false'')"
| "toString (JNumber n) = numberToString n"
| "toString (JString s) = s"
| "toString (JArray xs) = join '','' (map (\<lambda>x. if x = JNull then [] else toString x) xs)"
| "toString (JObject kvs) = ''[object Object]''"

definition toStringV :: "jsval \<Rightarrow> string" where
  "toStringV v = (case v of None \<Rightarrow> ''undefined'' | Some j \<Rightarrow> toString j)"

subsection \<open>Settings, the connection and the network\<close>

record settings =
  weaviateUrl :: string
  apiKey :: string

datatype verb = GET | POST | PATCH | DELETE

text \<open>
  A request as \<^verbatim>\<open>fetch(url, {method, headers, body})\<close> makes it. The body is the JSON
  value that \<^verbatim>\<open>JSON.stringify\<close> writes.
\<close>

record request =
  url :: string
  http_method :: verb
  headers :: "(string \<times> string) list"
  body :: "json option"

text \<open>
  A response: \<open>bodyText\<close> is the body as text, \<open>parsed\<close> is \<^verbatim>\<open>JSON.parse\<close> of it,
  \<open>None\<close> when the text is not JSON.
\<close>

record response =
  status :: nat
  statusText :: string
  bodyText :: string
  parsed :: "json option"

definition ok :: "response \<Rightarrow> bool" where
  "ok r = (200 \<le> status r \<and> status r \<le> 299)"

datatype fetch_result = Rejected | Response response

type_synonym server = "request list \<Rightarrow> request \<Rightarrow> fetch_result"

record world =
  persisted :: settings
  currentUrl :: string
  currentApiKey :: string
  sent :: "request list"

text \<open>
  \<^verbatim>\<open>getSettings\<close> and \<^verbatim>\<open>saveSettings\<close> of \<^verbatim>\<open>settings.ts\<close>, through the
  \<^verbatim>\<open>get-settings\<close> and \<^verbatim>\<open>save-settings\<close> handlers of the main process.
\<close>

definition getSettings :: "world \<Rightarrow> settings" where
  "getSettings w = persisted w"

definition saveSettings :: "settings \<Rightarrow> world \<Rightarrow> world" where
  "saveSettings s w = w\<lparr>persisted := s\<rparr>"

definition initializeWeaviate :: "world \<Rightarrow> world" where
  "initializeWeaviate w =
     (let settings = getSettings w
      in w\<lparr>currentUrl := weaviateUrl settings, currentApiKey := apiKey settings\<rparr>)"

definition getHeaders :: "world \<Rightarrow> (string \<times> string) list" where
  "getHeaders w =
     [(''Content-Type'', ''application/json'')] @
     (if currentApiKey w \<noteq> [] then [(''Authorization'', ''Bearer '' @ currentApiKey w)] else [])"

text \<open>\<^verbatim>\<open>!currentUrl || currentUrl.trim() === ''\<close>\<close>

definition notConfigured :: "world \<Rightarrow> bool" where
  "notConfigured w = (currentUrl w = [] \<or> trim (currentUrl w) = [])"

definition notConfiguredError :: error where
  "notConfiguredError = Error ''Weaviate URL is not configured. Please set it in Settings.''"

definition fetch :: "server \<Rightarrow> request \<Rightarrow> world \<Rightarrow> fetch_result \<times> world" where
  "fetch srv req w = (srv (sent w) req, w\<lparr>sent := sent w @ [req]\<rparr>)"

subsection \<open>Operators of JavaScript on values\<close>

text \<open>\<^verbatim>\<open>a || b\<close> and \<^verbatim>\<open>a ?? b\<close>, for a JSON value \<open>b\<close>.\<close>

definition or_else :: "jsval \<Rightarrow> json \<Rightarrow> json" where
  "or_else a b = (case a of None \<Rightarrow> b | Some j \<Rightarrow> if truthy (Some j) then j else b)"

definition nullish_else :: "jsval \<Rightarrow> json \<Rightarrow> json" where
  "nullish_else a b = (case a of None \<Rightarrow> b | Some j \<Rightarrow> if nullish (Some j) then b else j)"

text \<open>
  \<^verbatim>\<open>vs.join(sep)\<close> on values: \<^verbatim>\<open>undefined\<close> and \<^verbatim>\<open>null\<close> are written as the
  empty string.
\<close>

definition joinV :: "string \<Rightarrow> jsval list \<Rightarrow> string" where
  "joinV sep vs = join sep (map (\<lambda>v. if nullish v then [] else toStringV v) vs)"

definition dquote :: string where
  "dquote = [CHR 0x22]"

subsection \<open>executeQuery\<close>

definition graphqlRequest :: "world \<Rightarrow> string \<Rightarrow> request" where
  "graphqlRequest w queryStr =
     \<lparr>url = currentUrl w @ ''/v1/graphql'', http_method = POST, headers = getHeaders w,
      body = Some (JObject [(''query'', JString queryStr)])\<rparr>"

definition executeQuery :: "server \<Rightarrow> string \<Rightarrow> world \<Rightarrow> (error + json) \<times> world" where
  "executeQuery srv queryStr w =
     (let w1 = initializeWeaviate w
      in if notConfigured w1 then (Inl notConfiguredError, w1)
         else case fetch srv (graphqlRequest w1 queryStr) w1 of
                (Rejected, w2) \<Rightarrow> (Inl TypeError, w2)
              | (Response r, w2) \<Rightarrow>
                  if \<not> ok r then (Inl (Error (''Query failed: '' @ statusText r)), w2)
                  else case parsed r of
                         None \<Rightarrow> (Inl SyntaxError, w2)
                       | Some result \<Rightarrow> (Inr result, w2))"

subsection \<open>getObjectCount\<close>

definition executeAggregateQuery ::
  "server \<Rightarrow> string \<Rightarrow> string \<Rightarrow> world \<Rightarrow> (error + json) \<times> world" where
  "executeAggregateQuery srv queryStr className w =
     (let w1 = initializeWeaviate w
      in if notConfigured w1 then (Inl notConfiguredError, w1)
         else case fetch srv (graphqlRequest w1 queryStr) w1 of
                (Rejected, w2) \<Rightarrow> (Inl TypeError, w2)
              | (Response r, w2) \<Rightarrow>
                  if \<not> ok r then (Inl (Error (''Query failed: '' @ statusText r)), w2)
                  else case parsed r of
                         None \<Rightarrow> (Inl SyntaxError, w2)
                       | Some result \<Rightarrow> (Inr result, w2))"

definition aggregateQuery :: "string \<Rightarrow> string" where
  "aggregateQuery className =
     ''\<newline>    {\<newline>      Aggregate {\<newline>        '' @ className @
     '' {\<newline>          meta {\<newline>            count\<newline>          }\<newline>        }\<newline>      }\<newline>    }\<newline>  ''"

text \<open>
  The two statements after the \<^verbatim>\<open>try\<close> block:
  \<^verbatim>\<open>aggregateResponse?.data.Aggregate[className] ?? []\<close>, where only the first member
  access is optional, and \<^verbatim>\<open>aggregateData[0]?.meta?.count ?? 0\<close>.
\<close>

definition aggregateData :: "json \<Rightarrow> string \<Rightarrow> error + json" where
  "aggregateData aggregateResponse className =
     (if nullish (Some aggregateResponse) then Inr (JArray [])
      else case get_prop (member aggregateResponse ''data'') ''Aggregate'' of
             Inl e \<Rightarrow> Inl e
           | Inr aggregate \<Rightarrow>
               (case get_prop aggregate className of
                  Inl e \<Rightarrow> Inl e
                | Inr v \<Rightarrow> Inr (nullish_else v (JArray []))))"

definition metaCount :: "json \<Rightarrow> json" where
  "metaCount data = nullish_else (opt_prop (opt_prop (member data ''0'') ''meta'') ''count'') (JNumber 0)"

text \<open>
  The class name is the value the schema listing holds under \<^verbatim>\<open>class\<close>; the template
  literal and the member access turn it into a string.
\<close>

definition getObjectCount :: "server \<Rightarrow> jsval \<Rightarrow> world \<Rightarrow> (error + json) \<times> world" where
  "getObjectCount srv className w =
     (case executeAggregateQuery srv (aggregateQuery (toStringV className)) (toStringV className) w of
        (Inl e, w1) \<Rightarrow> (Inr (JNumber 0), w1)
      | (Inr aggregateResponse, w1) \<Rightarrow>
          (case aggregateData aggregateResponse (toStringV className) of
             Inl e \<Rightarrow> (Inl e, w1)
           | Inr data \<Rightarrow> (Inr (metaCount data), w1)))"

subsection \<open>getCollections\<close>

record property_info =
  pi_name :: jsval
  pi_dataType :: jsval
  pi_description :: jsval

record collection_info =
  ci_name :: jsval
  ci_description :: jsval
  ci_count :: json
  ci_properties :: "property_info list"

definition schemaRequest :: "world \<Rightarrow> request" where
  "schemaRequest w =
     \<lparr>url = currentUrl w @ ''/v1/schema'', http_method = GET, headers = getHeaders w, body = None\<rparr>"

text \<open>\<^verbatim>\<open>weavClass.properties?.map((p) => ({name: p.name, ...})) ?? []\<close>\<close>

fun mapProperties :: "json list \<Rightarrow> error + property_info list" where
  "mapProperties [] = Inr []"
| "mapProperties (p # ps) =
     (if nullish (Some p) then Inl TypeError
      else case mapProperties ps of
             Inl e \<Rightarrow> Inl e
           | Inr rest \<Rightarrow>
               Inr (\<lparr>pi_name = member p ''name'', pi_dataType = member p ''dataType'',
                     pi_description = member p ''description''\<rparr> # rest))"

definition classProperties :: "json \<Rightarrow> error + property_info list" where
  "classProperties weavClass =
     (case member weavClass ''properties'' of
        None \<Rightarrow> Inr []
      | Some JNull \<Rightarrow> Inr []
      | Some (JArray ps) \<Rightarrow> mapProperties ps
      | Some v \<Rightarrow> Inl TypeError)"

text \<open>
  \<^verbatim>\<open>schema.classes ?? []\<close> as \<^verbatim>\<open>for ... of\<close> goes through it: the elements of an
  array, the characters of a string; anything else is not iterable.
\<close>

definition schemaClasses :: "json \<Rightarrow> error + json list" where
  "schemaClasses schema =
     (case get_prop (Some schema) ''classes'' of
        Inl e \<Rightarrow> Inl e
      | Inr v \<Rightarrow>
          (case nullish_else v (JArray []) of
             JArray classes \<Rightarrow> Inr classes
           | JString s \<Rightarrow> Inr (map (\<lambda>c. JString [c]) s)
           | other \<Rightarrow> Inl TypeError))"

text \<open>The \<^verbatim>\<open>for (const weavClass of classes)\<close> loop.\<close>

fun collectionsLoop ::
  "server \<Rightarrow> json list \<Rightarrow> collection_info list \<Rightarrow> world \<Rightarrow> (error + collection_info list) \<times> world" where
  "collectionsLoop srv [] result w = (Inr result, w)"
| "collectionsLoop srv (weavClass # classes) result w =
     (case get_prop (Some weavClass) ''class'' of
        Inl e \<Rightarrow> (Inl e, w)
      | Inr cls \<Rightarrow>
          (case getObjectCount srv cls w of
             (Inl e, w1) \<Rightarrow> (Inl e, w1)
           | (Inr count, w1) \<Rightarrow>
               (case classProperties weavClass of
                  Inl e \<Rightarrow> (Inl e, w1)
                | Inr props \<Rightarrow>
                    collectionsLoop srv classes
                      (result @ [\<lparr>ci_name = cls, ci_description = member weavClass ''description'',
                                  ci_count = count, ci_properties = props\<rparr>]) w1)))"

definition getCollections :: "server \<Rightarrow> world \<Rightarrow> (error + collection_info list) \<times> world" where
  "getCollections srv w =
     (let w1 = initializeWeaviate w
      in if notConfigured w1 then (Inl notConfiguredError, w1)
         else case fetch srv (schemaRequest w1) w1 of
                (Rejected, w2) \<Rightarrow> (Inl TypeError, w2)
              | (Response r, w2) \<Rightarrow>
                  if \<not> ok r then (Inl (Error (''Failed to fetch schema: '' @ statusText r)), w2)
                  else case parsed r of
                         None \<Rightarrow> (Inl SyntaxError, w2)
                       | Some schema \<Rightarrow>
                           (case schemaClasses schema of
                              Inl e \<Rightarrow> (Inl e, w2)
                            | Inr classes \<Rightarrow> collectionsLoop srv classes [] w2))"

subsection \<open>getCollectionData\<close>

record column =
  col_name :: string
  col_dataType :: "string list"

record sort_config =
  sort_property :: string
  sort_order :: string

definition numberOrUndefined :: "int option \<Rightarrow> string" where
  "numberOrUndefined n = (case n of None \<Rightarrow> ''undefined'' | Some i \<Rightarrow> numberToString i)"

definition sortDirective :: "sort_config option \<Rightarrow> string" where
  "sortDirective sort' =
     (case sort' of
        None \<Rightarrow> []
      | Some s \<Rightarrow>
          ''sort: {\<newline>          path: ['' @ dquote @ sort_property s @ dquote @
          ''],\<newline>          order: '' @ toLowerCase (sort_order s) @ ''\<newline>        }'')"

definition paginationDirective :: "int option \<Rightarrow> int option \<Rightarrow> string" where
  "paginationDirective limit offset =
     ''limit: '' @ numberOrUndefined limit @ '', offset: '' @ numberOrUndefined offset"

definition directives :: "sort_config option \<Rightarrow> int option \<Rightarrow> int option \<Rightarrow> string" where
  "directives sort' limit offset =
     join '', '' (filter (\<lambda>d. d \<noteq> []) [sortDirective sort', paginationDirective limit offset])"

definition collectionDataQuery ::
  "string \<Rightarrow> column list \<Rightarrow> sort_config option \<Rightarrow> int option \<Rightarrow> int option \<Rightarrow> string" where
  "collectionDataQuery className properties sort' limit offset =
     ''{\<newline>      Get {\<newline>        '' @ className @
     (if directives sort' limit offset \<noteq> [] then ''('' @ directives sort' limit offset @ '')'' else []) @
     '' {\<newline>          _additional {\<newline>            id\<newline>          }\<newline>          '' @
     join ''\<newline>'' (map col_name properties) @
     ''\<newline>        }\<newline>      }\<newline>    }''"

text \<open>
  The last two statements of \<^verbatim>\<open>getCollectionData\<close> and of \<^verbatim>\<open>searchCollections\<close>,
  which are the same: \<^verbatim>\<open>if (!response?.data?.Get) throw new Error(...)\<close> and
  \<^verbatim>\<open>return response.data.Get[className] || []\<close>.
\<close>

definition invalidStructure :: error where
  "invalidStructure = Error ''Invalid response structure from Weaviate''"

definition responseRows :: "json \<Rightarrow> string \<Rightarrow> error + json" where
  "responseRows response className =
     (case opt_prop (opt_prop (Some response) ''data'') ''Get'' of
        None \<Rightarrow> Inl invalidStructure
      | Some get \<Rightarrow>
          if \<not> truthy (Some get) then Inl invalidStructure
          else Inr (or_else (member get className) (JArray [])))"

definition getCollectionData ::
  "server \<Rightarrow> string \<Rightarrow> column list \<Rightarrow> sort_config option \<Rightarrow> int option \<Rightarrow> int option \<Rightarrow>
   world \<Rightarrow> (error + json) \<times> world" where
  "getCollectionData srv className properties sort' limit offset w =
     (let w1 = initializeWeaviate w
      in if notConfigured w1 then (Inl notConfiguredError, w1)
         else case executeQuery srv (collectionDataQuery className properties sort' limit offset) w1 of
                (Inl e, w2) \<Rightarrow> (Inl e, w2)
              | (Inr response, w2) \<Rightarrow> (responseRows response className, w2))"

subsection \<open>deleteCollection\<close>

definition deleteCollection :: "server \<Rightarrow> string \<Rightarrow> world \<Rightarrow> (error + unit) \<times> world" where
  "deleteCollection srv className w =
     (let w1 = initializeWeaviate w
      in if notConfigured w1 then (Inl notConfiguredError, w1)
         else case fetch srv \<lparr>url = currentUrl w1 @ ''/v1/schema/'' @ className, http_method = DELETE,
                                headers = getHeaders w1, body = None\<rparr> w1 of
                (Rejected, w2) \<Rightarrow> (Inl TypeError, w2)
              | (Response r, w2) \<Rightarrow>
                  if \<not> ok r then (Inl (Error (''Failed to delete collection: '' @ statusText r)), w2)
                  else (Inr (), w2))"

subsection \<open>createObject, getObjectById, updateObject\<close>

definition objectPayload :: "string \<Rightarrow> json \<Rightarrow> json" where
  "objectPayload className object = JObject [(''class'', JString className), (''properties'', object)]"

definition createObject :: "server \<Rightarrow> string \<Rightarrow> json \<Rightarrow> world \<Rightarrow> (error + jsval) \<times> world" where
  "createObject srv className object w =
     (let w1 = initializeWeaviate w
      in if notConfigured w1 then (Inl notConfiguredError, w1)
         else case fetch srv \<lparr>url = currentUrl w1 @ ''/v1/objects'', http_method = POST,
                                headers = getHeaders w1,
                                body = Some (objectPayload className object)\<rparr> w1 of
                (Rejected, w2) \<Rightarrow> (Inl TypeError, w2)
              | (Response r, w2) \<Rightarrow>
                  if \<not> ok r
                  then (Inl (Error (''Failed to create object: '' @ statusText r @ ''. '' @ bodyText r)), w2)
                  else case parsed r of
                         None \<Rightarrow> (Inl SyntaxError, w2)
                       | Some result \<Rightarrow> (get_prop (Some result) ''id'', w2))"

definition objectRequest :: "world \<Rightarrow> string \<Rightarrow> request" where
  "objectRequest w objectId =
     \<lparr>url = currentUrl w @ ''/v1/objects/'' @ objectId, http_method = GET, headers = getHeaders w,
      body = None\<rparr>"

text \<open>The result is \<open>JNull\<close> for \<^verbatim>\<open>return null\<close>.\<close>

definition getObjectById :: "server \<Rightarrow> string \<Rightarrow> string \<Rightarrow> world \<Rightarrow> (error + json) \<times> world" where
  "getObjectById srv className objectId w =
     (let w1 = initializeWeaviate w
      in if notConfigured w1 then (Inl notConfiguredError, w1)
         else case fetch srv (objectRequest w1 objectId) w1 of
                (Rejected, w2) \<Rightarrow> (Inl TypeError, w2)
              | (Response r, w2) \<Rightarrow>
                  if \<not> ok r
                  then (if status r = 404 then (Inr JNull, w2)
                        else (Inl (Error (''Failed to fetch object: '' @ statusText r)), w2))
                  else case parsed r of
                         None \<Rightarrow> (Inl SyntaxError, w2)
                       | Some result \<Rightarrow>
                           (case get_prop (Some result) ''properties'' of
                              Inl e \<Rightarrow> (Inl e, w2)
                            | Inr props \<Rightarrow> (Inr (or_else props (JObject [])), w2)))"

definition updateObject ::
  "server \<Rightarrow> string \<Rightarrow> string \<Rightarrow> json \<Rightarrow> world \<Rightarrow> (error + unit) \<times> world" where
  "updateObject srv className objectId object w =
     (let w1 = initializeWeaviate w
      in if notConfigured w1 then (Inl notConfiguredError, w1)
         else case fetch srv \<lparr>url = currentUrl w1 @ ''/v1/objects/'' @ objectId, http_method = PATCH,
                                headers = getHeaders w1,
                                body = Some (objectPayload className object)\<rparr> w1 of
                (Rejected, w2) \<Rightarrow> (Inl TypeError, w2)
              | (Response r, w2) \<Rightarrow>
                  if \<not> ok r
                  then (Inl (Error (''Failed to update object: '' @ statusText r @ ''. '' @ bodyText r)), w2)
                  else (Inr (), w2))"

subsection \<open>createCollection\<close>

record schema_property =
  sp_name :: string
  sp_dataType :: "string list"
  sp_description :: "string option"

record create_collection_schema =
  cs_class :: string
  cs_description :: "string option"
  cs_properties :: "schema_property list"

text \<open>
  The body of \<^verbatim>\<open>schema.properties.map((prop) => ...)\<close> up to the value of
  \<^verbatim>\<open>weaviateDataType\<close>: \<^verbatim>\<open>prop.dataType[0] || 'string'\<close>, then the two
  \<^verbatim>\<open>switch\<close> statements.
\<close>

definition firstDataType :: "string list \<Rightarrow> string" where
  "firstDataType dataType = (case dataType of [] \<Rightarrow> ''string'' | t # ts \<Rightarrow> if t = [] then ''string'' else t)"

definition weaviateDataType :: "string list \<Rightarrow> string" where
  "weaviateDataType propDataType =
     (let dataType = firstDataType propDataType
      in if includes_str dataType ''[]''
         then (let baseType = toLowerCase (replace dataType ''[]'' [])
               in if baseType = ''string'' \<or> baseType = ''text'' then ''text[]''
                  else if baseType = ''int'' then ''int[]''
                  else if baseType = ''number'' then ''number[]''
                  else if baseType = ''boolean'' then ''boolean[]''
                  else if baseType = ''date'' then ''date[]''
                  else ''text[]'')
         else (let lowerType = toLowerCase dataType
               in if lowerType = ''string'' \<or> lowerType = ''text'' then ''text''
                  else if lowerType = ''int'' then ''int''
                  else if lowerType = ''number'' then ''number''
                  else if lowerType = ''boolean'' then ''boolean''
                  else if lowerType = ''date'' then ''date''
                  else ''text''))"

text \<open>
  The payload as \<^verbatim>\<open>JSON.stringify\<close> writes it: a member whose value is
  \<^verbatim>\<open>undefined\<close> is left out.
\<close>

definition optionalMember :: "string \<Rightarrow> string option \<Rightarrow> (string \<times> json) list" where
  "optionalMember k v = (case v of None \<Rightarrow> [] | Some s \<Rightarrow> [(k, JString s)])"

definition mappedProperty :: "schema_property \<Rightarrow> json" where
  "mappedProperty p =
     JObject ([(''name'', JString (sp_name p)),
               (''dataType'', JArray [JString (weaviateDataType (sp_dataType p))])] @
              optionalMember ''description'' (sp_description p))"

definition capitalized :: "string \<Rightarrow> string" where
  "capitalized s = toUpperCase (take 1 s) @ drop 1 s"

definition weaviateSchema :: "create_collection_schema \<Rightarrow> json" where
  "weaviateSchema schema =
     JObject ([(''class'', JString (capitalized (cs_class schema)))] @
              optionalMember ''description'' (cs_description schema) @
              [(''properties'', JArray (map mappedProperty (cs_properties schema)))])"

definition createRequest :: "world \<Rightarrow> create_collection_schema \<Rightarrow> request" where
  "createRequest w schema =
     \<lparr>url = removeTrailingSlash (currentUrl w) @ ''/v1/schema'', http_method = POST,
      headers = getHeaders w, body = Some (weaviateSchema schema)\<rparr>"

text \<open>
  The message of the error for a response that is not 2xx. \<open>errorFromJson\<close> is the
  \<^verbatim>\<open>try\<close> block after \<^verbatim>\<open>JSON.parse\<close>, \<open>Inl\<close> when it throws; the \<^verbatim>\<open>catch\<close>
  block appends the body's text when it is not empty and shorter than 500.
\<close>

definition errorFromJson :: "json \<Rightarrow> string \<Rightarrow> error + string" where
  "errorFromJson errorJson errorMessage =
     (case get_prop (Some errorJson) ''error'' of
        Inl e \<Rightarrow> Inl e
      | Inr None \<Rightarrow> Inr (toString (or_else (member errorJson ''message'') (JString errorMessage)))
      | Inr (Some err) \<Rightarrow>
          if truthy (Some err)
          then (case err of
                  JArray (first # others) \<Rightarrow>
                    (case get_prop (Some first) ''message'' of
                       Inl e \<Rightarrow> Inl e
                     | Inr m \<Rightarrow> Inr (toString (or_else m (JString errorMessage))))
                | JString s \<Rightarrow> Inr s
                | other \<Rightarrow> Inr (toString (or_else (member err ''message'') (JString errorMessage))))
          else Inr (toString (or_else (member errorJson ''message'') (JString errorMessage))))"

definition createErrorMessage :: "response \<Rightarrow> string" where
  "createErrorMessage r =
     (let errorText = bodyText r;
          errorMessage = ''Failed to create collection: '' @ statusText r;
          caught = (if errorText \<noteq> [] \<and> length errorText < 500
                    then errorMessage @ ''. '' @ errorText else errorMessage)
      in case parsed r of
           None \<Rightarrow> caught
         | Some errorJson \<Rightarrow>
             (case errorFromJson errorJson errorMessage of
                Inl e \<Rightarrow> caught
              | Inr message \<Rightarrow> message))"

definition createCollection ::
  "server \<Rightarrow> create_collection_schema \<Rightarrow> world \<Rightarrow> (error + unit) \<times> world" where
  "createCollection srv schema w =
     (let w1 = initializeWeaviate w
      in if notConfigured w1 then (Inl notConfiguredError, w1)
         else case fetch srv (createRequest w1 schema) w1 of
                (Rejected, w2) \<Rightarrow> (Inl TypeError, w2)
              | (Response r, w2) \<Rightarrow>
                  if \<not> ok r then (Inl (Error (createErrorMessage r)), w2)
                  else (Inr (), w2))"

subsection \<open>searchCollections\<close>

datatype SearchType = Bm25 | Vector | Hybrid

record search_options =
  so_query :: string
  so_collectionName :: string
  so_searchType :: "SearchType option"
  so_limit :: "int option"
  so_properties :: "string list option"

text \<open>
  The defaults of the destructuring, \<^verbatim>\<open>searchType = 'bm25'\<close> and \<^verbatim>\<open>limit = 10\<close>,
  and \<^verbatim>\<open>limit || 10\<close>.
\<close>

definition effectiveSearchType :: "search_options \<Rightarrow> SearchType" where
  "effectiveSearchType options = (case so_searchType options of None \<Rightarrow> Bm25 | Some t \<Rightarrow> t)"

definition limitValue :: "search_options \<Rightarrow> int" where
  "limitValue options =
     (let limit = (case so_limit options of None \<Rightarrow> 10 | Some n \<Rightarrow> n)
      in if limit \<noteq> 0 then limit else 10)"

definition propertiesList :: "string list option \<Rightarrow> string" where
  "propertiesList properties =
     (case properties of
        None \<Rightarrow> []
      | Some ps \<Rightarrow> if length ps > 0 then join '', '' (map (\<lambda>p. dquote @ p @ dquote) ps) else [])"

definition searchDirective :: "search_options \<Rightarrow> string" where
  "searchDirective options =
     (case effectiveSearchType options of
        Bm25 \<Rightarrow>
          ''bm25: { query: '' @ dquote @ so_query options @ dquote @
          (if propertiesList (so_properties options) \<noteq> []
           then '', properties: ['' @ propertiesList (so_properties options) @ '']'' else []) @ '' }''
      | Vector \<Rightarrow> ''nearText: { concepts: ['' @ dquote @ so_query options @ dquote @ ''] }''
      | Hybrid \<Rightarrow>
          ''hybrid: { query: '' @ dquote @ so_query options @ dquote @
          (if propertiesList (so_properties options) \<noteq> []
           then '', properties: ['' @ propertiesList (so_properties options) @ '']'' else []) @ '' }'')"

text \<open>
  \<^verbatim>\<open>collections.find(c => c.name === collectionName)\<close>, the names of its properties and
  \<^verbatim>\<open>propertiesToFetch\<close>.
\<close>

definition propertyNames :: "collection_info list \<Rightarrow> string \<Rightarrow> jsval list" where
  "propertyNames collections name =
     (case find (\<lambda>c. ci_name c = Some (JString name)) collections of
        None \<Rightarrow> []
      | Some collection \<Rightarrow> map pi_name (ci_properties collection))"

definition propertiesToFetch :: "collection_info list \<Rightarrow> string \<Rightarrow> string" where
  "propertiesToFetch collections name =
     (if length (propertyNames collections name) > 0
      then joinV ''\<newline>'' (propertyNames collections name)
      else ''_additional { id }'')"

definition graphqlQuery :: "string \<Rightarrow> string \<Rightarrow> int \<Rightarrow> string \<Rightarrow> string" where
  "graphqlQuery name directive limit toFetch =
     ''{\<newline>      Get {\<newline>        '' @ name @ ''(\<newline>          '' @ directive @
     ''\<newline>          limit: '' @ numberToString limit @
     ''\<newline>        ) {\<newline>          _additional {\<newline>            id\<newline>            score\<newline>          }\<newline>          '' @
     toFetch @ ''\<newline>        }\<newline>      }\<newline>    }''"

definition searchCollections :: "server \<Rightarrow> search_options \<Rightarrow> world \<Rightarrow> (error + json) \<times> world" where
  "searchCollections srv options w =
     (let w1 = initializeWeaviate w
      in if notConfigured w1 then (Inl notConfiguredError, w1)
         else case getCollections srv w1 of
                (Inl e, w2) \<Rightarrow> (Inl e, w2)
              | (Inr collections, w2) \<Rightarrow>
                  (case executeQuery srv
                          (graphqlQuery (so_collectionName options) (searchDirective options)
                             (limitValue options)
                             (propertiesToFetch collections (so_collectionName options))) w2 of
                     (Inl e, w3) \<Rightarrow> (Inl e, w3)
                   | (Inr response, w3) \<Rightarrow> (responseRows response (so_collectionName options), w3)))"

subsection \<open>The callers: the settings form, the create-collection form, the search view\<close>

text \<open>
  \<^verbatim>\<open>handleSave\<close> of \<^verbatim>\<open>SettingsModal\<close>: the url of the form is given a scheme when it
  is not empty and has none, the settings are saved, and the connection is initialized
  again.
\<close>

definition formattedUrl :: "string \<Rightarrow> string" where
  "formattedUrl u =
     (if u \<noteq> [] \<and> \<not> startsWith u ''http://'' \<and> \<not> startsWith u ''https://''
      then ''http://'' @ u else u)"

definition handleSave :: "settings \<Rightarrow> world \<Rightarrow> world" where
  "handleSave form w =
     initializeWeaviate (saveSettings (form\<lparr>weaviateUrl := formattedUrl (weaviateUrl form)\<rparr>) w)"

text \<open>
  \<^verbatim>\<open>handleSubmit\<close> of \<^verbatim>\<open>CreateCollectionModal\<close>. The handler catches what is
  thrown and shows its message: \<open>Inl\<close> is the error shown, \<open>Inr\<close> is success.
\<close>

record form_property =
  fp_name :: string
  fp_dataType :: "string list"
  fp_description :: string

definition nonEmpty :: "string \<Rightarrow> string option" where
  "nonEmpty s = (if s \<noteq> [] then Some s else None)"

definition validProperties :: "form_property list \<Rightarrow> schema_property list" where
  "validProperties props =
     map (\<lambda>p. \<lparr>sp_name = trim (fp_name p), sp_dataType = fp_dataType p,
                 sp_description = nonEmpty (trim (fp_description p))\<rparr>)
         (filter (\<lambda>p. trim (fp_name p) \<noteq> []) props)"

definition handleSubmit ::
  "server \<Rightarrow> string \<Rightarrow> string \<Rightarrow> form_property list \<Rightarrow> world \<Rightarrow> (error + unit) \<times> world" where
  "handleSubmit srv collectionName description props w =
     (if trim collectionName = [] then (Inl (Error ''Collection name is required''), w)
      else if length (validProperties props) = 0
      then (Inl (Error ''At least one property is required''), w)
      else createCollection srv
             \<lparr>cs_class = capitalized (trim collectionName),
              cs_description = nonEmpty (trim description),
              cs_properties = validProperties props\<rparr> w)"

text \<open>
  \<^verbatim>\<open>handleSearch\<close> of \<^verbatim>\<open>SearchView\<close>. \<open>normalizeResult\<close> is the function mapped over
  the rows; \<open>spread\<close> is \<^verbatim>\<open>{...result}\<close> and \<open>setMember\<close> writes a member of an object
  literal after a spread: in place when the key is there, at the end when it is not.
\<close>

definition defaultAdditional :: json where
  "defaultAdditional = JObject [(''id'', JString []), (''score'', JNumber 0)]"

fun setMember :: "string \<Rightarrow> json \<Rightarrow> (string \<times> json) list \<Rightarrow> (string \<times> json) list" where
  "setMember k v [] = [(k, v)]"
| "setMember k v (p # ps) = (if fst p = k then (k, v) # ps else p # setMember k v ps)"

fun spread :: "json \<Rightarrow> (string \<times> json) list" where
  "spread (JObject kvs) = kvs"
| "spread (JArray xs) = zip (map (\<lambda>i. numberToString (int i)) [0 ..< length xs]) xs"
| "spread v = []"

fun isObject :: "json \<Rightarrow> bool" where
  "isObject (JObject kvs) = True"
| "isObject (JArray xs) = True"
| "isObject v = False"

definition normalizeResult :: "json \<Rightarrow> json" where
  "normalizeResult result =
     (if \<not> truthy (Some result) \<or> \<not> isObject result
      then JObject [(''_additional'', defaultAdditional)]
      else JObject (setMember ''_additional''
                      (or_else (member result ''_additional'') defaultAdditional) (spread result)))"

definition handleSearch ::
  "server \<Rightarrow> string \<Rightarrow> string \<Rightarrow> SearchType \<Rightarrow> int \<Rightarrow> string list \<Rightarrow> world \<Rightarrow>
   (error + json list) \<times> world" where
  "handleSearch srv searchQuery selectedCollection searchType limit selectedProperties w =
     (if trim searchQuery = [] \<or> selectedCollection = []
      then (Inl (Error ''Please enter a search query and select a collection''), w)
      else case searchCollections srv
                  \<lparr>so_query = searchQuery, so_collectionName = selectedCollection,
                   so_searchType = Some searchType, so_limit = Some limit,
                   so_properties = (if length selectedProperties > 0
                                    then Some selectedProperties else None)\<rparr>
                  (initializeWeaviate w) of
             (Inl e, w1) \<Rightarrow> (Inl e, w1)
           | (Inr (JArray searchResults), w1) \<Rightarrow> (Inr (map normalizeResult searchResults), w1)
           | (Inr other, w1) \<Rightarrow> (Inl TypeError, w1))"

subsection \<open>deleteObjects\<close>

definition deleteRequest :: "string \<Rightarrow> (string \<times> string) list \<Rightarrow> string \<Rightarrow> request" where
  "deleteRequest u hs oid =
     \<lparr>url = u @ ''/v1/objects/'' @ oid, http_method = DELETE, headers = hs, body = None\<rparr>"

text \<open>The \<^verbatim>\<open>for (const id of objectIds)\<close> loop.\<close>

fun deleteLoop :: "server \<Rightarrow> (string \<times> string) list \<Rightarrow> string list \<Rightarrow> world \<Rightarrow> (error + unit) \<times> world" where
  "deleteLoop srv hs [] w = (Inr (), w)"
| "deleteLoop srv hs (oid # oids) w =
     (case fetch srv (deleteRequest (currentUrl w) hs oid) w of
        (Rejected, w') \<Rightarrow> (Inl TypeError, w')
      | (Response r, w') \<Rightarrow>
          if \<not> ok r then (Inl (Error (''Failed to delete object: '' @ statusText r)), w')
          else deleteLoop srv hs oids w')"

definition deleteObjects :: "server \<Rightarrow> string \<Rightarrow> string list \<Rightarrow> world \<Rightarrow> (error + unit) \<times> world" where
  "deleteObjects srv className objectIds w =
     (let w1 = initializeWeaviate w
      in if notConfigured w1 then (Inl notConfiguredError, w1)
         else deleteLoop srv (getHeaders w1) objectIds w1)"

text \<open>
  \<open>deleteAnswer srv hs oids w i\<close> is what the store answers to the DELETE of the
  \<open>i\<close>-th identity once the DELETEs of the identities before it have been made, and
  \<open>succeeded\<close> says that an answer is a response with a 2xx status.
\<close>

definition deleteAnswer :: "server \<Rightarrow> (string \<times> string) list \<Rightarrow> string list \<Rightarrow> world \<Rightarrow> nat \<Rightarrow> fetch_result" where
  "deleteAnswer srv hs oids w i =
     srv (sent w @ map (deleteRequest (currentUrl w) hs) (take i oids))
         (deleteRequest (currentUrl w) hs (oids ! i))"

definition succeeded :: "fetch_result \<Rightarrow> bool" where
  "succeeded a = (case a of Rejected \<Rightarrow> False | Response r \<Rightarrow> ok r)"

subsection \<open>Example worlds and stores\<close>

definition ex_world :: world where
  "ex_world =
     \<lparr>persisted = \<lparr>weaviateUrl = ''http://localhost:8080'', apiKey = ''''\<rparr>,
      currentUrl = '''', currentApiKey = '''', sent = []\<rparr>"

definition ex_delete_store :: server where
  "ex_delete_store h req =
     (if url req = ''http://localhost:8080/v1/objects/a''
      then Response \<lparr>status = 204, statusText = ''No Content'', bodyText = '''', parsed = None\<rparr>
      else Response \<lparr>status = 500, statusText = ''Internal Server Error'', bodyText = '''',
             parsed = None\<rparr>)"

definition ex_blank_world :: world where
  "ex_blank_world =
     \<lparr>persisted = \<lparr>weaviateUrl = ''  '', apiKey = ''secret''\<rparr>,
      currentUrl = ''http://localhost:8080'', currentApiKey = '''', sent = []\<rparr>"

definition ex_schema :: create_collection_schema where
  "ex_schema =
     \<lparr>cs_class = ''article'', cs_description = None,
      cs_properties =
        [\<lparr>sp_name = ''title'', sp_dataType = [''string''], sp_description = None\<rparr>,
         \<lparr>sp_name = ''pages'', sp_dataType = [''INT[]''], sp_description = Some ''page numbers''\<rparr>,
         \<lparr>sp_name = ''place'', sp_dataType = [''geo''], sp_description = None\<rparr>,
         \<lparr>sp_name = ''tags'', sp_dataType = [''tag[]''], sp_description = None\<rparr>]\<rparr>"

definition ex_options :: search_options where
  "ex_options =
     \<lparr>so_query = ''whales'', so_collectionName = ''Article'', so_searchType = None,
      so_limit = None, so_properties = None\<rparr>"

definition ex_unschemed_world :: world where
  "ex_unschemed_world =
     \<lparr>persisted = \<lparr>weaviateUrl = ''localhost:8080/'', apiKey = ''''\<rparr>,
      currentUrl = '''', currentApiKey = '''', sent = []\<rparr>"

definition ex_object_store :: server where
  "ex_object_store h req =
     (if url req = ''http://localhost:8080/v1/objects/missing-id''
      then Response \<lparr>status = 404, statusText = ''Not Found'', bodyText = '''', parsed = None\<rparr>
      else if url req = ''http://localhost:8080/v1/objects/broken''
      then Response \<lparr>status = 500, statusText = ''Internal Server Error'', bodyText = '''',
             parsed = None\<rparr>
      else if url req = ''http://localhost:8080/v1/objects/bare''
      then Response \<lparr>status = 200, statusText = ''OK'', bodyText = '''',
             parsed = Some (JObject [(''class'', JString ''Article''), (''id'', JString ''bare'')])\<rparr>
      else Response \<lparr>status = 200, statusText = ''OK'', bodyText = '''',
             parsed = Some (JObject [(''class'', JString ''Article''), (''id'', JString ''a''),
                       (''properties'', JObject [(''title'', JString ''Whales'')])])\<rparr>)"

text \<open>
  A store that answers every query with a 2xx response whose body is
  \<^verbatim>\<open>{"data": {"Get": g}}\<close>, and a store that answers the first request with a schema
  listing of one collection, the second with its count and every later one as the first
  store does.
\<close>

definition ex_get_store :: "json \<Rightarrow> server" where
  "ex_get_store g h req =
     Response \<lparr>status = 200, statusText = ''OK'', bodyText = '''',
       parsed = Some (JObject [(''data'', JObject [(''Get'', g)])])\<rparr>"

definition ex_listing :: json where
  "ex_listing =
     JObject [(''classes'', JArray
       [JObject [(''class'', JString ''Article''),
                 (''properties'', JArray
                    [JObject [(''name'', JString ''title''), (''dataType'', JArray [JString ''text''])]])]])]"

definition ex_count :: json where
  "ex_count =
     JObject [(''data'', JObject [(''Aggregate'', JObject
       [(''Article'', JArray [JObject [(''meta'', JObject [(''count'', JNumber 2)])]])])])]"

definition ex_search_store :: "json \<Rightarrow> server" where
  "ex_search_store g h req =
     (if length h = 0
      then Response \<lparr>status = 200, statusText = ''OK'', bodyText = '''', parsed = Some ex_listing\<rparr>
      else if length h = 1
      then Response \<lparr>status = 200, statusText = ''OK'', bodyText = '''', parsed = Some ex_count\<rparr>
      else ex_get_store g h req)"

definition ex_collections :: "collection_info list" where
  "ex_collections =
     [\<lparr>ci_name = Some (JString ''Article''), ci_description = None, ci_count = JNumber 2,
       ci_properties =
         [\<lparr>pi_name = Some (JString ''title''), pi_dataType = Some (JArray [JString ''text'']),
           pi_description = None\<rparr>]\<rparr>]"

definition ex_listed_world :: world where
  "ex_listed_world =
     (initializeWeaviate ex_world)\<lparr>sent :=
        [schemaRequest (initializeWeaviate ex_world),
         graphqlRequest (initializeWeaviate ex_world) (aggregateQuery ''Article'')]\<rparr>"

definition ex_columns :: "column list" where
  "ex_columns = [\<lparr>col_name = ''title'', col_dataType = [''text'']\<rparr>]"

text \<open>
  A store that answers every request with a 2xx response of a given body, the body of a
  query that failed, and a list of two rows, the second without \<^verbatim>\<open>_additional\<close>.
\<close>

definition ex_body_store :: "json \<Rightarrow> server" where
  "ex_body_store j h req =
     Response \<lparr>status = 200, statusText = ''OK'', bodyText = '''', parsed = Some j\<rparr>"

definition ex_errors :: json where
  "ex_errors = JObject [(''errors'', JArray [JObject [(''message'', JString ''no such class'')]])]"

definition ex_rows :: json where
  "ex_rows =
     JArray [JObject [(''_additional'', JObject [(''id'', JString ''a'')]), (''title'', JString ''Whales'')],
             JObject [(''title'', JString ''Eels'')]]"

definition ex_empty_schema :: create_collection_schema where
  "ex_empty_schema = \<lparr>cs_class = '''', cs_description = None, cs_properties = []\<rparr>"

text \<open>
  A store that answers the first request with a schema listing of three collections, the
  third request (the count of the second collection) with a given answer, and every other
  request with the counts of the three.
\<close>

definition ex_listing3 :: json where
  "ex_listing3 =
     JObject [(''classes'', JArray
       [JObject [(''class'', JString ''Article'')],
        JObject [(''class'', JString ''Author'')],
        JObject [(''class'', JString ''Note'')]])]"

definition ex_counts :: json where
  "ex_counts =
     JObject [(''data'', JObject [(''Aggregate'', JObject
       [(''Article'', JArray [JObject [(''meta'', JObject [(''count'', JNumber 2)])]]),
        (''Author'', JArray [JObject [(''meta'', JObject [(''count'', JNumber 3)])]]),
        (''Note'', JArray [JObject [(''meta'', JObject [(''count'', JNumber 5)])]])])])]"

definition ex_listing3_store :: "fetch_result \<Rightarrow> server" where
  "ex_listing3_store second h req =
     (if length h = 0
      then Response \<lparr>status = 200, statusText = ''OK'', bodyText = '''', parsed = Some ex_listing3\<rparr>
      else if length h = 2 then second
      else Response \<lparr>status = 200, statusText = ''OK'', bodyText = '''', parsed = Some ex_counts\<rparr>)"

section \<open>Properties\<close>

subsection \<open>The connection after initialization\<close>

lemma initializeWeaviate_simps:
  "currentUrl (initializeWeaviate w) = weaviateUrl (persisted w)"
  "currentApiKey (initializeWeaviate w) = apiKey (persisted w)"
  "persisted (initializeWeaviate w) = persisted w"
  "sent (initializeWeaviate w) = sent w"
  by (simp_all add: initializeWeaviate_def getSettings_def Let_def)

lemma initializeWeaviate_idem: "initializeWeaviate (initializeWeaviate w) = initializeWeaviate w"
  by (simp add: initializeWeaviate_def getSettings_def Let_def)

lemma notConfigured_initialize:
  "notConfigured (initializeWeaviate w) \<longleftrightarrow>
   weaviateUrl (persisted w) = [] \<or> trim (weaviateUrl (persisted w)) = []"
  by (simp add: notConfigured_def initializeWeaviate_simps)

lemma ex_world_configured: "\<not> notConfigured (initializeWeaviate ex_world)"
  by (simp add: notConfigured_def initializeWeaviate_def getSettings_def ex_world_def Let_def
      trim_def is_space_def)

subsection \<open>What the operations leave of the connection\<close>

lemma initializeWeaviate_sent_update:
  "initializeWeaviate (w\<lparr>sent := s\<rparr>) = (initializeWeaviate w)\<lparr>sent := s\<rparr>"
  by (simp add: initializeWeaviate_def getSettings_def Let_def)

lemma fetch_world:
  "fetch srv req w = (a, w') \<Longrightarrow> w' = w\<lparr>sent := sent w @ [req]\<rparr>"
  by (auto simp: fetch_def)

lemma fetch_keeps:
  assumes "fetch srv req w = (a, w')"
  shows "persisted w' = persisted w"
    and "initializeWeaviate w = w \<Longrightarrow> initializeWeaviate w' = w'"
  using assms by (auto simp: fetch_def initializeWeaviate_sent_update)

lemma executeAggregateQuery_keeps:
  assumes "executeAggregateQuery srv q cn w = (res, w')"
  shows "persisted w' = persisted w" and "initializeWeaviate w' = w'"
  using assms
  by (auto simp: executeAggregateQuery_def Let_def fetch_def initializeWeaviate_simps
      initializeWeaviate_idem initializeWeaviate_sent_update
      split: if_splits fetch_result.splits option.splits)

lemma executeQuery_keeps:
  assumes "executeQuery srv q w = (res, w')"
  shows "persisted w' = persisted w" and "initializeWeaviate w' = w'"
  using assms
  by (auto simp: executeQuery_def Let_def fetch_def initializeWeaviate_simps
      initializeWeaviate_idem initializeWeaviate_sent_update
      split: if_splits fetch_result.splits option.splits)

lemma getObjectCount_keeps:
  assumes "getObjectCount srv cn w = (res, w')"
  shows "persisted w' = persisted w" and "initializeWeaviate w' = w'"
proof -
  obtain a w1 where e: "executeAggregateQuery srv (aggregateQuery (toStringV cn)) (toStringV cn) w = (a, w1)"
    by (cases "executeAggregateQuery srv (aggregateQuery (toStringV cn)) (toStringV cn) w")
  with assms have "w' = w1"
    by (auto simp: getObjectCount_def split: sum.splits)
  with executeAggregateQuery_keeps [OF e]
  show "persisted w' = persisted w" and "initializeWeaviate w' = w'" by simp_all
qed

lemma collectionsLoop_keeps:
  "collectionsLoop srv classes acc w = (res, w') \<Longrightarrow> initializeWeaviate w = w \<Longrightarrow>
   persisted w' = persisted w \<and> initializeWeaviate w' = w'"
proof (induction classes arbitrary: acc w)
  case Nil
  then show ?case by simp
next
  case (Cons c classes)
  show ?case
  proof (cases "get_prop (Some c) ''class''")
    case (Inl e)
    with Cons.prems show ?thesis by simp
  next
    case (Inr cls)
    obtain cnt w1 where g: "getObjectCount srv cls w = (cnt, w1)"
      by (cases "getObjectCount srv cls w")
    note k = getObjectCount_keeps [OF g]
    show ?thesis
    proof (cases cnt)
      case (Inl e)
      with Cons.prems Inr g k show ?thesis by simp
    next
      case cnt: (Inr n)
      show ?thesis
      proof (cases "classProperties c")
        case (Inl e)
        with Cons.prems Inr g k cnt show ?thesis by simp
      next
        case props: (Inr ps)
        from Cons.prems(1) Inr g cnt props
        have "collectionsLoop srv classes
                (acc @ [\<lparr>ci_name = cls, ci_description = member c ''description'',
                          ci_count = n, ci_properties = ps\<rparr>]) w1 = (res, w')"
          by simp
        from Cons.IH [OF this k(2)] k(1) show ?thesis by simp
      qed
    qed
  qed
qed

lemma getCollections_keeps:
  assumes "getCollections srv w = (res, w')"
  shows "persisted w' = persisted w" and "initializeWeaviate w' = w'"
proof -
  have "persisted w' = persisted w \<and> initializeWeaviate w' = w'"
  proof (cases "notConfigured (initializeWeaviate w)")
    case True
    with assms show ?thesis
      by (auto simp: getCollections_def Let_def initializeWeaviate_simps initializeWeaviate_idem)
  next
    case False
    obtain a w2 where f: "fetch srv (schemaRequest (initializeWeaviate w)) (initializeWeaviate w) = (a, w2)"
      by (cases "fetch srv (schemaRequest (initializeWeaviate w)) (initializeWeaviate w)")
    from fetch_keeps [OF f] have k: "persisted w2 = persisted w" "initializeWeaviate w2 = w2"
      by (simp_all add: initializeWeaviate_simps initializeWeaviate_idem)
    show ?thesis
    proof (cases a)
      case Rejected
      with assms False f k show ?thesis by (simp add: getCollections_def Let_def)
    next
      case (Response r)
      show ?thesis
      proof (cases "ok r \<and> (\<exists>schema classes. parsed r = Some schema \<and> schemaClasses schema = Inr classes)")
        case False
        with assms \<open>\<not> notConfigured (initializeWeaviate w)\<close> f k Response show ?thesis
          by (auto simp: getCollections_def Let_def split: option.splits sum.splits if_splits)
      next
        case True
        then obtain schema classes where "ok r" "parsed r = Some schema"
          "schemaClasses schema = Inr classes" by blast
        with assms \<open>\<not> notConfigured (initializeWeaviate w)\<close> f Response
        have "collectionsLoop srv classes [] w2 = (res, w')"
          by (simp add: getCollections_def Let_def)
        from collectionsLoop_keeps [OF this k(2)] k(1) show ?thesis by simp
      qed
    qed
  qed
  then show "persisted w' = persisted w" and "initializeWeaviate w' = w'" by simp_all
qed

lemma executeQuery_response:
  assumes "initializeWeaviate w = w" and "\<not> notConfigured w"
    and "srv (sent w) (graphqlRequest w q) = Response r" and "ok r" and "parsed r = Some response"
  shows "executeQuery srv q w = (Inr response, w\<lparr>sent := sent w @ [graphqlRequest w q]\<rparr>)"
  using assms by (simp add: executeQuery_def Let_def fetch_def)

lemma getCollectionData_rows:
  assumes "\<not> notConfigured (initializeWeaviate w)"
    and "srv (sent w)
           (graphqlRequest (initializeWeaviate w)
              (collectionDataQuery className columns sort' lim offset)) = Response r"
    and "ok r" and "parsed r = Some response"
  shows "getCollectionData srv className columns sort' lim offset w =
           (responseRows response className,
            (initializeWeaviate w)\<lparr>sent := sent w @
               [graphqlRequest (initializeWeaviate w)
                  (collectionDataQuery className columns sort' lim offset)]\<rparr>)"
proof -
  have "executeQuery srv (collectionDataQuery className columns sort' lim offset) (initializeWeaviate w) =
      (Inr response, (initializeWeaviate w)\<lparr>sent := sent (initializeWeaviate w) @
         [graphqlRequest (initializeWeaviate w) (collectionDataQuery className columns sort' lim offset)]\<rparr>)"
    using assms
    by (intro executeQuery_response) (simp_all add: initializeWeaviate_idem initializeWeaviate_simps)
  with assms(1) show ?thesis
    by (simp add: getCollectionData_def Let_def initializeWeaviate_simps)
qed

lemma graphqlRequest_cong:
  "currentUrl w = currentUrl v \<Longrightarrow> currentApiKey w = currentApiKey v \<Longrightarrow>
   graphqlRequest w q = graphqlRequest v q"
  by (simp add: graphqlRequest_def getHeaders_def)

lemma searchCollections_rows:
  assumes conf: "\<not> notConfigured (initializeWeaviate w)"
    and cols: "getCollections srv (initializeWeaviate w) = (Inr collections, w2)"
    and resp: "srv (sent w2)
           (graphqlRequest (initializeWeaviate w)
              (graphqlQuery (so_collectionName options) (searchDirective options) (limitValue options)
                 (propertiesToFetch collections (so_collectionName options)))) = Response r"
    and "ok r" and "parsed r = Some response"
  shows "searchCollections srv options w =
           (responseRows response (so_collectionName options),
            w2\<lparr>sent := sent w2 @
               [graphqlRequest (initializeWeaviate w)
                  (graphqlQuery (so_collectionName options) (searchDirective options)
                     (limitValue options)
                     (propertiesToFetch collections (so_collectionName options)))]\<rparr>)"
proof -
  let ?q = "graphqlQuery (so_collectionName options) (searchDirective options) (limitValue options)
                 (propertiesToFetch collections (so_collectionName options))"
  note k = getCollections_keeps [OF cols]
  have p: "persisted w2 = persisted w" using k(1) by (simp add: initializeWeaviate_simps)
  have cu: "currentUrl w2 = currentUrl (initializeWeaviate w)"
    and ck: "currentApiKey w2 = currentApiKey (initializeWeaviate w)"
    using k(2) p by (metis initializeWeaviate_simps(1), metis initializeWeaviate_simps(2))
  have req: "graphqlRequest w2 ?q = graphqlRequest (initializeWeaviate w) ?q"
    by (rule graphqlRequest_cong [OF cu ck])
  have nc: "\<not> notConfigured w2" using conf cu by (simp add: notConfigured_def)
  have "executeQuery srv ?q w2 = (Inr response, w2\<lparr>sent := sent w2 @ [graphqlRequest w2 ?q]\<rparr>)"
    using k(2) nc resp assms(4,5) by (intro executeQuery_response) (simp_all add: req)
  with conf cols show ?thesis
    by (simp add: searchCollections_def Let_def req)
qed

subsection \<open>Rows of a query response\<close>

lemma ex_getCollections:
  "getCollections (ex_search_store g) (initializeWeaviate ex_world) = (Inr ex_collections, ex_listed_world)"
  by code_simp

lemma responseRows_cases:
  "(\<not> truthy (opt_prop (opt_prop (Some response) ''data'') ''Get'') \<longrightarrow>
      responseRows response className = Inl invalidStructure) \<and>
   (opt_prop (opt_prop (Some response) ''data'') ''Get'' = Some get \<and> truthy (Some get) \<and>
    \<not> truthy (member get className) \<longrightarrow>
      responseRows response className = Inr (JArray [])) \<and>
   (opt_prop (opt_prop (Some response) ''data'') ''Get'' = Some get \<and> truthy (Some get) \<and>
    member get className = Some rows \<and> truthy (Some rows) \<longrightarrow>
      responseRows response className = Inr rows)"
  by (auto simp: responseRows_def or_else_def split: option.splits)

subsection \<open>The request of createCollection\<close>

lemma createCollection_sent:
  "\<not> notConfigured (initializeWeaviate w) \<Longrightarrow>
   sent (snd (createCollection srv schema w)) = sent w @ [createRequest (initializeWeaviate w) schema]"
  by (simp add: createCollection_def Let_def fetch_def initializeWeaviate_simps
      split: fetch_result.splits)

subsection \<open>Bulk deletion is sequential and stops at the first failure\<close>

lemma deleteAnswer_Cons:
  "deleteAnswer srv hs (oid # oids) w (Suc i) =
   deleteAnswer srv hs oids (w\<lparr>sent := sent w @ [deleteRequest (currentUrl w) hs oid]\<rparr>) i"
  by (simp add: deleteAnswer_def)

lemma deleteLoop_all_ok:
  "(\<forall>i<length oids. succeeded (deleteAnswer srv hs oids w i)) \<Longrightarrow>
   deleteLoop srv hs oids w =
     (Inr (), w\<lparr>sent := sent w @ map (deleteRequest (currentUrl w) hs) oids\<rparr>)"
proof (induction oids arbitrary: w)
  case Nil
  show ?case by simp
next
  case (Cons oid oids)
  let ?w' = "w\<lparr>sent := sent w @ [deleteRequest (currentUrl w) hs oid]\<rparr>"
  from Cons.prems have first: "succeeded (deleteAnswer srv hs (oid # oids) w 0)"
    by auto
  have rest: "\<forall>i<length oids. succeeded (deleteAnswer srv hs oids ?w' i)"
  proof (intro allI impI)
    fix i assume "i < length oids"
    with Cons.prems have "succeeded (deleteAnswer srv hs (oid # oids) w (Suc i))" by auto
    then show "succeeded (deleteAnswer srv hs oids ?w' i)" by (simp only: deleteAnswer_Cons)
  qed
  from first obtain r where r: "srv (sent w) (deleteRequest (currentUrl w) hs oid) = Response r" "ok r"
    by (auto simp: succeeded_def deleteAnswer_def split: fetch_result.splits)
  have "deleteLoop srv hs (oid # oids) w = deleteLoop srv hs oids ?w'"
    using r by (simp add: fetch_def)
  also have "\<dots> = (Inr (), ?w'\<lparr>sent := sent ?w' @ map (deleteRequest (currentUrl ?w') hs) oids\<rparr>)"
    by (rule Cons.IH [OF rest])
  finally show ?case by simp
qed

lemma deleteLoop_first_failure:
  "k < length oids \<Longrightarrow> (\<forall>i<k. succeeded (deleteAnswer srv hs oids w i)) \<Longrightarrow>
   \<not> succeeded (deleteAnswer srv hs oids w k) \<Longrightarrow>
   deleteLoop srv hs oids w =
     (Inl (case deleteAnswer srv hs oids w k of
             Rejected \<Rightarrow> TypeError
           | Response r \<Rightarrow> Error (''Failed to delete object: '' @ statusText r)),
      w\<lparr>sent := sent w @ map (deleteRequest (currentUrl w) hs) (take (Suc k) oids)\<rparr>)"
proof (induction oids arbitrary: w k)
  case Nil
  then show ?case by simp
next
  case (Cons oid oids)
  let ?w' = "w\<lparr>sent := sent w @ [deleteRequest (currentUrl w) hs oid]\<rparr>"
  show ?case
  proof (cases k)
    case 0
    with Cons.prems(3) show ?thesis
      by (auto simp: succeeded_def deleteAnswer_def fetch_def split: fetch_result.splits)
  next
    case (Suc j)
    from Cons.prems(2) Suc have first: "succeeded (deleteAnswer srv hs (oid # oids) w 0)"
      by auto
    then obtain r where r: "srv (sent w) (deleteRequest (currentUrl w) hs oid) = Response r" "ok r"
      by (auto simp: succeeded_def deleteAnswer_def split: fetch_result.splits)
    have j: "j < length oids" using Cons.prems(1) Suc by simp
    have before: "\<forall>i<j. succeeded (deleteAnswer srv hs oids ?w' i)"
    proof (intro allI impI)
      fix i assume "i < j"
      with Cons.prems(2) Suc have "succeeded (deleteAnswer srv hs (oid # oids) w (Suc i))" by auto
      then show "succeeded (deleteAnswer srv hs oids ?w' i)" by (simp only: deleteAnswer_Cons)
    qed
    have at: "\<not> succeeded (deleteAnswer srv hs oids ?w' j)"
      using Cons.prems(3) unfolding Suc deleteAnswer_Cons .
    have "deleteLoop srv hs (oid # oids) w = deleteLoop srv hs oids ?w'"
      using r by (simp add: fetch_def)
    also note Cons.IH [OF j before at]
    finally show ?thesis
      using Suc by (simp add: deleteAnswer_Cons)
  qed
qed

text \<open>
  C1 (as amended). With a configured url, \<^verbatim>\<open>deleteObjects\<close> makes one DELETE request per
  identity, in the order given, each one after the requests before it were answered with a
  2xx status. When all are, it returns and the requests made are exactly one per identity.
  When the \<open>k\<close>-th is the first that is not, the requests made are those of the first
  \<open>k + 1\<close> identities and no other: the \<open>k\<close> before it have been deleted, none after
  it is tried. The error thrown is \<^verbatim>\<open>Error("Failed to delete object: " + statusText)\<close>
  of the failing response, or the rejection of \<^verbatim>\<open>fetch\<close>: it carries the status text
  and not the identity.
\<close>

theorem deleteObjects_sequential:
  "\<not> notConfigured (initializeWeaviate w) \<Longrightarrow>
   ((\<forall>i<length oids.
       succeeded (deleteAnswer srv (getHeaders (initializeWeaviate w)) oids (initializeWeaviate w) i)) \<longrightarrow>
    deleteObjects srv cn oids w =
      (Inr (),
       (initializeWeaviate w)\<lparr>sent := sent w @
          map (deleteRequest (weaviateUrl (persisted w)) (getHeaders (initializeWeaviate w))) oids\<rparr>)) \<and>
   (k < length oids \<and>
    (\<forall>i<k. succeeded (deleteAnswer srv (getHeaders (initializeWeaviate w)) oids (initializeWeaviate w) i)) \<and>
    \<not> succeeded (deleteAnswer srv (getHeaders (initializeWeaviate w)) oids (initializeWeaviate w) k) \<longrightarrow>
    deleteObjects srv cn oids w =
      (Inl (case deleteAnswer srv (getHeaders (initializeWeaviate w)) oids (initializeWeaviate w) k of
              Rejected \<Rightarrow> TypeError
            | Response r \<Rightarrow> Error (''Failed to delete object: '' @ statusText r)),
       (initializeWeaviate w)\<lparr>sent := sent w @
          map (deleteRequest (weaviateUrl (persisted w)) (getHeaders (initializeWeaviate w)))
            (take (Suc k) oids)\<rparr>))"
proof -
  assume conf: "\<not> notConfigured (initializeWeaviate w)"
  let ?w1 = "initializeWeaviate w"
  have u: "currentUrl ?w1 = weaviateUrl (persisted w)" and s: "sent ?w1 = sent w"
    by (simp_all add: initializeWeaviate_def getSettings_def Let_def)
  have run: "deleteObjects srv cn oids w = deleteLoop srv (getHeaders ?w1) oids ?w1"
    using conf by (simp add: deleteObjects_def Let_def)
  show ?thesis
  proof (intro conjI impI)
    assume "\<forall>i<length oids. succeeded (deleteAnswer srv (getHeaders ?w1) oids ?w1 i)"
    from deleteLoop_all_ok [OF this] show "deleteObjects srv cn oids w =
      (Inr (), ?w1\<lparr>sent := sent w @
          map (deleteRequest (weaviateUrl (persisted w)) (getHeaders ?w1)) oids\<rparr>)"
      by (simp only: run u s)
  next
    assume a: "k < length oids \<and>
      (\<forall>i<k. succeeded (deleteAnswer srv (getHeaders ?w1) oids ?w1 i)) \<and>
      \<not> succeeded (deleteAnswer srv (getHeaders ?w1) oids ?w1 k)"
    then have a1: "k < length oids"
      and a2: "\<forall>i<k. succeeded (deleteAnswer srv (getHeaders ?w1) oids ?w1 i)"
      and a3: "\<not> succeeded (deleteAnswer srv (getHeaders ?w1) oids ?w1 k)" by blast+
    from deleteLoop_first_failure [OF a1 a2 a3]
    show "deleteObjects srv cn oids w =
      (Inl (case deleteAnswer srv (getHeaders ?w1) oids ?w1 k of
              Rejected \<Rightarrow> TypeError
            | Response r \<Rightarrow> Error (''Failed to delete object: '' @ statusText r)),
       ?w1\<lparr>sent := sent w @
          map (deleteRequest (weaviateUrl (persisted w)) (getHeaders ?w1)) (take (Suc k) oids)\<rparr>)"
      by (simp only: run u s)
  qed
qed

theorem deleteObjects_sequential_witness:
  "deleteObjects ex_delete_store ''Article'' [''a'', ''b'', ''c''] ex_world =
     (Inl (Error ''Failed to delete object: Internal Server Error''),
      (initializeWeaviate ex_world)\<lparr>sent :=
         [deleteRequest ''http://localhost:8080'' [(''Content-Type'', ''application/json'')] ''a'',
          deleteRequest ''http://localhost:8080'' [(''Content-Type'', ''application/json'')] ''b'']\<rparr>) \<and>
   deleteObjects ex_delete_store ''Article'' [''a'', ''a''] ex_world =
     (Inr (),
      (initializeWeaviate ex_world)\<lparr>sent :=
         [deleteRequest ''http://localhost:8080'' [(''Content-Type'', ''application/json'')] ''a'',
          deleteRequest ''http://localhost:8080'' [(''Content-Type'', ''application/json'')] ''a'']\<rparr>)"
proof -
  let ?w1 = "initializeWeaviate ex_world"
  let ?hs = "getHeaders ?w1"
  have hs: "?hs = [(''Content-Type'', ''application/json'')]"
    by (simp add: getHeaders_def initializeWeaviate_def getSettings_def ex_world_def Let_def)
  have u: "weaviateUrl (persisted ex_world) = ''http://localhost:8080''"
    and s: "sent ex_world = []"
    by (simp_all add: ex_world_def)
  have ans_a: "succeeded (deleteAnswer ex_delete_store ?hs oids ?w1 i)" if "oids ! i = ''a''" for oids i
    using that
    by (simp add: succeeded_def deleteAnswer_def ex_delete_store_def deleteRequest_def ok_def
        initializeWeaviate_def getSettings_def ex_world_def Let_def)
  have ans_b: "deleteAnswer ex_delete_store ?hs [''a'', ''b'', ''c''] ?w1 1 =
       Response \<lparr>status = 500, statusText = ''Internal Server Error'', bodyText = '''', parsed = None\<rparr>"
    by (simp add: deleteAnswer_def ex_delete_store_def deleteRequest_def
        initializeWeaviate_def getSettings_def ex_world_def Let_def)
  have before: "\<forall>i<1. succeeded (deleteAnswer ex_delete_store ?hs [''a'', ''b'', ''c''] ?w1 i)"
    by (simp add: ans_a)
  have at: "\<not> succeeded (deleteAnswer ex_delete_store ?hs [''a'', ''b'', ''c''] ?w1 1)"
    by (simp only: ans_b) (simp add: succeeded_def ok_def)
  have len: "(1::nat) < length [''a'', ''b'', ''c'']" by simp
  from deleteObjects_sequential [OF ex_world_configured, where oids = "[''a'', ''b'', ''c'']"
      and srv = ex_delete_store and k = 1 and cn = "''Article''", THEN conjunct2, THEN mp,
      OF conjI [OF len conjI [OF before at]]]
  have fails: "deleteObjects ex_delete_store ''Article'' [''a'', ''b'', ''c''] ex_world =
     (Inl (Error ''Failed to delete object: Internal Server Error''),
      ?w1\<lparr>sent :=
         [deleteRequest ''http://localhost:8080'' [(''Content-Type'', ''application/json'')] ''a'',
          deleteRequest ''http://localhost:8080'' [(''Content-Type'', ''application/json'')] ''b'']\<rparr>)"
    by (simp only: ans_b) (simp add: hs u s)
  have every: "\<forall>i<length [''a'', ''a'']. succeeded (deleteAnswer ex_delete_store ?hs [''a'', ''a''] ?w1 i)"
    by (simp add: ans_a less_Suc_eq)
  from deleteObjects_sequential [OF ex_world_configured, where oids = "[''a'', ''a'']"
      and srv = ex_delete_store and k = 0 and cn = "''Article''", THEN conjunct1, THEN mp, OF every]
  have all_ok: "deleteObjects ex_delete_store ''Article'' [''a'', ''a''] ex_world =
     (Inr (),
      ?w1\<lparr>sent :=
         [deleteRequest ''http://localhost:8080'' [(''Content-Type'', ''application/json'')] ''a'',
          deleteRequest ''http://localhost:8080'' [(''Content-Type'', ''application/json'')] ''a'']\<rparr>)"
    by (simp add: hs u s)
  from fails all_ok show ?thesis by (rule conjI)
qed

text \<open>
  The error does not tell which identity failed: with a store that deletes \<^verbatim>\<open>a\<close> and
  answers 500 to every other DELETE, the run that fails at \<^verbatim>\<open>b\<close> and the run that
  fails at \<^verbatim>\<open>c\<close> throw the same error.
\<close>

theorem deleteObjects_error_without_id:
  "fst (deleteObjects ex_delete_store ''Article'' [''a'', ''b'', ''c''] ex_world) =
     Inl (Error ''Failed to delete object: Internal Server Error'') \<and>
   fst (deleteObjects ex_delete_store ''Article'' [''a'', ''c'', ''b''] ex_world) =
     Inl (Error ''Failed to delete object: Internal Server Error'')"
  by (simp add: deleteObjects_def notConfigured_def initializeWeaviate_def getSettings_def
      ex_world_def Let_def trim_def is_space_def getHeaders_def fetch_def deleteRequest_def
      ex_delete_store_def ok_def)
subsection \<open>Count failures while listing collections\<close>

text \<open>
  What \<^verbatim>\<open>executeAggregateQuery\<close> throws is caught and the count is 0. A response that is
  not \<^verbatim>\<open>null\<close> and has no \<^verbatim>\<open>data\<close> is read outside the \<^verbatim>\<open>try\<close> block, and the
  read throws.
\<close>

lemma getObjectCount_isolates_thrown:
  "fst (executeAggregateQuery srv (aggregateQuery (toStringV cn)) (toStringV cn) w) = Inl e \<Longrightarrow>
   fst (getObjectCount srv cn w) = Inr (JNumber 0)"
  by (auto simp: getObjectCount_def split: prod.splits sum.splits)

lemma aggregateData_without_data:
  "response \<noteq> JNull \<Longrightarrow> nullish (member response ''data'') \<Longrightarrow>
   aggregateData response cn = Inl TypeError"
  by (cases response; cases "member response ''data''")
     (auto simp: aggregateData_def get_prop_def split: json.splits)

text \<open>
  C2, at a listing of three collections where the count of the second fails. When the store
  answers the count query with status 500, or the request cannot be made, the three
  descriptors are returned and the second has count 0. When the store answers it with
  status 200 and a body without \<^verbatim>\<open>data\<close>, \<^verbatim>\<open>getCollections\<close> throws a
  \<^verbatim>\<open>TypeError\<close> after its third request and returns no descriptor.
\<close>

theorem count_shape_failure_propagates:
  "fst (getCollections
          (ex_listing3_store
             (Response \<lparr>status = 500, statusText = ''Internal Server Error'', bodyText = '''',
                         parsed = None\<rparr>))
          ex_world) =
     Inr [\<lparr>ci_name = Some (JString ''Article''), ci_description = None, ci_count = JNumber 2,
            ci_properties = []\<rparr>,
          \<lparr>ci_name = Some (JString ''Author''), ci_description = None, ci_count = JNumber 0,
            ci_properties = []\<rparr>,
          \<lparr>ci_name = Some (JString ''Note''), ci_description = None, ci_count = JNumber 5,
            ci_properties = []\<rparr>] \<and>
   fst (getCollections (ex_listing3_store Rejected) ex_world) =
     Inr [\<lparr>ci_name = Some (JString ''Article''), ci_description = None, ci_count = JNumber 2,
            ci_properties = []\<rparr>,
          \<lparr>ci_name = Some (JString ''Author''), ci_description = None, ci_count = JNumber 0,
            ci_properties = []\<rparr>,
          \<lparr>ci_name = Some (JString ''Note''), ci_description = None, ci_count = JNumber 5,
            ci_properties = []\<rparr>] \<and>
   fst (getCollections
          (ex_listing3_store
             (Response \<lparr>status = 200, statusText = ''OK'', bodyText = '''', parsed = Some ex_errors\<rparr>))
          ex_world) = Inl TypeError \<and>
   length (sent (snd (getCollections
          (ex_listing3_store
             (Response \<lparr>status = 200, statusText = ''OK'', bodyText = '''', parsed = Some ex_errors\<rparr>))
          ex_world))) = 3"
  by code_simp

subsection \<open>Every operation checks the configuration before it touches the network\<close>

text \<open>
  C3. When the url of the settings is empty or blank, every exported operation of the access
  layer returns the configuration error
  \<^verbatim>\<open>Error("Weaviate URL is not configured. Please set it in Settings.")\<close>, and the world
  it leaves is the one \<^verbatim>\<open>initializeWeaviate\<close> leaves: the settings have been loaded
  again into the connection and no request has been made. (The module has no operation
  that updates a collection.)
\<close>

theorem unconfigured_fails_before_network:
  assumes "weaviateUrl (persisted w) = [] \<or> trim (weaviateUrl (persisted w)) = []"
  shows "getCollections srv w = (Inl notConfiguredError, initializeWeaviate w) \<and>
         getCollectionData srv className columns sort' lim offset w =
           (Inl notConfiguredError, initializeWeaviate w) \<and>
         searchCollections srv options w = (Inl notConfiguredError, initializeWeaviate w) \<and>
         createCollection srv schema w = (Inl notConfiguredError, initializeWeaviate w) \<and>
         deleteCollection srv className w = (Inl notConfiguredError, initializeWeaviate w) \<and>
         createObject srv className object w = (Inl notConfiguredError, initializeWeaviate w) \<and>
         updateObject srv className objectId object w = (Inl notConfiguredError, initializeWeaviate w) \<and>
         deleteObjects srv className objectIds w = (Inl notConfiguredError, initializeWeaviate w) \<and>
         getObjectById srv className objectId w = (Inl notConfiguredError, initializeWeaviate w) \<and>
         executeQuery srv queryStr w = (Inl notConfiguredError, initializeWeaviate w) \<and>
         sent (initializeWeaviate w) = sent w \<and>
         currentUrl (initializeWeaviate w) = weaviateUrl (persisted w) \<and>
         currentApiKey (initializeWeaviate w) = apiKey (persisted w)"
proof -
  from assms have nc: "notConfigured (initializeWeaviate w)"
    by (simp only: notConfigured_initialize)
  show ?thesis
    using nc
    by (simp add: getCollections_def getCollectionData_def searchCollections_def
        createCollection_def deleteCollection_def createObject_def updateObject_def
        deleteObjects_def getObjectById_def executeQuery_def Let_def initializeWeaviate_simps)
qed

theorem unconfigured_fails_before_network_witness:
  "getCollections ex_delete_store ex_blank_world =
     (Inl notConfiguredError, initializeWeaviate ex_blank_world) \<and>
   getCollectionData ex_delete_store ''Article'' [] None (Some 10) (Some 0) ex_blank_world =
     (Inl notConfiguredError, initializeWeaviate ex_blank_world) \<and>
   searchCollections ex_delete_store ex_options ex_blank_world =
     (Inl notConfiguredError, initializeWeaviate ex_blank_world) \<and>
   createCollection ex_delete_store ex_schema ex_blank_world =
     (Inl notConfiguredError, initializeWeaviate ex_blank_world) \<and>
   deleteCollection ex_delete_store ''Article'' ex_blank_world =
     (Inl notConfiguredError, initializeWeaviate ex_blank_world) \<and>
   createObject ex_delete_store ''Article'' (JObject []) ex_blank_world =
     (Inl notConfiguredError, initializeWeaviate ex_blank_world) \<and>
   updateObject ex_delete_store ''Article'' ''a'' (JObject []) ex_blank_world =
     (Inl notConfiguredError, initializeWeaviate ex_blank_world) \<and>
   deleteObjects ex_delete_store ''Article'' [''a''] ex_blank_world =
     (Inl notConfiguredError, initializeWeaviate ex_blank_world) \<and>
   getObjectById ex_delete_store ''Article'' ''a'' ex_blank_world =
     (Inl notConfiguredError, initializeWeaviate ex_blank_world) \<and>
   executeQuery ex_delete_store ''{ Get { Article { title } } }'' ex_blank_world =
     (Inl notConfiguredError, initializeWeaviate ex_blank_world) \<and>
   sent (initializeWeaviate ex_blank_world) = [] \<and>
   currentUrl (initializeWeaviate ex_blank_world) = ''  '' \<and>
   currentApiKey (initializeWeaviate ex_blank_world) = ''secret''"
proof -
  have blank: "weaviateUrl (persisted ex_blank_world) = [] \<or>
      trim (weaviateUrl (persisted ex_blank_world)) = []"
    by (simp add: ex_blank_world_def trim_def is_space_def)
  have "sent ex_blank_world = []" "weaviateUrl (persisted ex_blank_world) = ''  ''"
    "apiKey (persisted ex_blank_world) = ''secret''"
    by (simp_all add: ex_blank_world_def)
  with unconfigured_fails_before_network [OF blank, where srv = ex_delete_store
      and className = "''Article''" and columns = "[]" and sort' = None and lim = "Some 10"
      and offset = "Some 0" and options = ex_options and schema = ex_schema
      and object = "JObject []" and objectId = "''a''" and objectIds = "[''a'']"
      and queryStr = "''{ Get { Article { title } } }''"]
  show ?thesis by simp
qed

subsection \<open>The url of the connection\<close>

text \<open>
  \<^verbatim>\<open>initializeWeaviate\<close> does not normalize: a url that is loaded without a scheme and
  with a slash at its end is stored as it is.
\<close>

theorem initialize_stores_url_verbatim:
  "\<not> startsWith (weaviateUrl (getSettings ex_unschemed_world)) ''http://'' \<and>
   \<not> startsWith (weaviateUrl (getSettings ex_unschemed_world)) ''https://'' \<and>
   currentUrl (initializeWeaviate ex_unschemed_world) \<noteq>
     ''http://'' @ weaviateUrl (getSettings ex_unschemed_world) \<and>
   currentUrl (initializeWeaviate ex_unschemed_world) = ''localhost:8080/'' \<and>
   last (currentUrl (initializeWeaviate ex_unschemed_world)) = CHR ''/''"
  by (simp add: startsWith_def initializeWeaviate_def getSettings_def ex_unschemed_world_def Let_def)

text \<open>
  C4 (as amended). After \<^verbatim>\<open>initializeWeaviate\<close> the stored url and credential are those
  loaded from the settings, byte for byte. The scheme is added before the settings are
  saved: \<^verbatim>\<open>handleSave\<close> of the settings form saves, and then loads into the connection, the
  url of the form prefixed with \<^verbatim>\<open>http://\<close> when it is not empty and starts with neither
  \<^verbatim>\<open>http://\<close> nor \<^verbatim>\<open>https://\<close>, and the url of the form itself otherwise.
\<close>

theorem url_scheme_added_on_save:
  "currentUrl (initializeWeaviate w) = weaviateUrl (getSettings w) \<and>
   currentApiKey (initializeWeaviate w) = apiKey (getSettings w) \<and>
   getSettings (handleSave form w) = form\<lparr>weaviateUrl := formattedUrl (weaviateUrl form)\<rparr> \<and>
   currentUrl (handleSave form w) = formattedUrl (weaviateUrl form) \<and>
   (weaviateUrl form \<noteq> [] \<and> \<not> startsWith (weaviateUrl form) ''http://'' \<and>
    \<not> startsWith (weaviateUrl form) ''https://'' \<longrightarrow>
      formattedUrl (weaviateUrl form) = ''http://'' @ weaviateUrl form) \<and>
   (weaviateUrl form = [] \<or> startsWith (weaviateUrl form) ''http://'' \<or>
    startsWith (weaviateUrl form) ''https://'' \<longrightarrow>
      formattedUrl (weaviateUrl form) = weaviateUrl form)"
  by (auto simp: initializeWeaviate_def getSettings_def saveSettings_def handleSave_def
      formattedUrl_def Let_def)

theorem url_scheme_added_on_save_witness:
  "currentUrl (handleSave \<lparr>weaviateUrl = ''localhost:8080'', apiKey = ''''\<rparr> ex_world) =
     ''http://localhost:8080'' \<and>
   currentUrl (handleSave \<lparr>weaviateUrl = ''https://db.example.org/'', apiKey = ''''\<rparr> ex_world) =
     ''https://db.example.org/''"
proof -
  have a: "''localhost:8080'' \<noteq> [] \<and> \<not> startsWith ''localhost:8080'' ''http://'' \<and>
      \<not> startsWith ''localhost:8080'' ''https://''"
    by (simp add: startsWith_def)
  have b: "''https://db.example.org/'' = [] \<or> startsWith ''https://db.example.org/'' ''http://'' \<or>
      startsWith ''https://db.example.org/'' ''https://''"
    by (simp add: startsWith_def)
  from url_scheme_added_on_save [where form = "\<lparr>weaviateUrl = ''localhost:8080'', apiKey = ''''\<rparr>"
      and w = ex_world] a
  have 1: "currentUrl (handleSave \<lparr>weaviateUrl = ''localhost:8080'', apiKey = ''''\<rparr> ex_world) =
     ''http://localhost:8080''" by (simp add: startsWith_def)
  from url_scheme_added_on_save [where form = "\<lparr>weaviateUrl = ''https://db.example.org/'', apiKey = ''''\<rparr>"
      and w = ex_world] b
  have 2: "currentUrl (handleSave \<lparr>weaviateUrl = ''https://db.example.org/'', apiKey = ''''\<rparr> ex_world) =
     ''https://db.example.org/''" by (simp add: startsWith_def)
  from 1 2 show ?thesis by (rule conjI)
qed

subsection \<open>The payload of createCollection\<close>

lemma prefix_brackets_append:
  "prefix ''[]'' (c # cs @ ''[]'') \<Longrightarrow> prefix ''[]'' (c # cs)"
  by (cases cs) auto

lemma replace_suffix: "\<not> sublist ''[]'' b \<Longrightarrow> replace (b @ ''[]'') ''[]'' [] = b"
proof (induction b)
  case Nil
  show ?case by simp
next
  case (Cons c cs)
  from Cons.prems have np: "\<not> prefix ''[]'' (c # cs)" and ns: "\<not> sublist ''[]'' cs"
    by (simp_all add: sublist_Cons_right)
  from np prefix_brackets_append have "\<not> prefix ''[]'' (c # (cs @ ''[]''))" by blast
  then have "replace (c # (cs @ ''[]'')) ''[]'' [] = c # replace (cs @ ''[]'') ''[]'' []"
    by (subst replace.simps(2)) (simp only: if_False)
  with Cons.IH [OF ns] show ?case by (simp only: append_Cons)
qed

lemma weaviateDataType_scalar:
  "\<not> includes_str t ''[]'' \<Longrightarrow>
   weaviateDataType (t # ts) =
     (if toLowerCase t = ''string'' \<or> toLowerCase t = ''text'' then ''text''
      else if toLowerCase t = ''int'' then ''int''
      else if toLowerCase t = ''number'' then ''number''
      else if toLowerCase t = ''boolean'' then ''boolean''
      else if toLowerCase t = ''date'' then ''date''
      else ''text'')"
proof (cases "t = []")
  case True
  then show ?thesis
    by (simp add: weaviateDataType_def firstDataType_def Let_def includes_str_def toLowerCase_def
        lower_char_def sublist_Cons_right)
next
  case False
  assume "\<not> includes_str t ''[]''"
  with False show ?thesis
    by (simp add: weaviateDataType_def firstDataType_def Let_def)
qed

lemma weaviateDataType_array:
  assumes "\<not> includes_str b ''[]''"
  shows "weaviateDataType ((b @ ''[]'') # ts) = weaviateDataType (b # ts) @ ''[]''"
proof -
  have inc: "includes_str (b @ ''[]'') ''[]''" by (simp add: includes_str_def)
  have rep: "replace (b @ ''[]'') ''[]'' [] = b"
    using assms by (simp add: includes_str_def replace_suffix)
  have "weaviateDataType ((b @ ''[]'') # ts) =
     (if toLowerCase b = ''string'' \<or> toLowerCase b = ''text'' then ''text[]''
      else if toLowerCase b = ''int'' then ''int[]''
      else if toLowerCase b = ''number'' then ''number[]''
      else if toLowerCase b = ''boolean'' then ''boolean[]''
      else if toLowerCase b = ''date'' then ''date[]''
      else ''text[]'')"
    using inc rep by (simp add: weaviateDataType_def firstDataType_def Let_def)
  then show ?thesis
    by (simp add: weaviateDataType_scalar [OF assms])
qed

lemma toLowerCase_keeps_brackets:
  "includes_str s ''[]'' \<Longrightarrow> includes_str (toLowerCase s) ''[]''"
proof -
  assume "includes_str s ''[]''"
  then obtain a b where "s = a @ ''[]'' @ b" by (auto simp: includes_str_def sublist_def)
  then have "toLowerCase s = toLowerCase a @ ''[]'' @ toLowerCase b"
    by (simp add: toLowerCase_def lower_char_def)
  then show ?thesis unfolding includes_str_def by (simp only: sublist_appendI)
qed

lemma table_words_without_brackets:
  "\<not> includes_str ''string'' ''[]''" "\<not> includes_str ''text'' ''[]''"
  "\<not> includes_str ''int'' ''[]''" "\<not> includes_str ''number'' ''[]''"
  "\<not> includes_str ''boolean'' ''[]''" "\<not> includes_str ''date'' ''[]''"
  by code_simp+

lemma weaviateDataType_brackets:
  assumes "includes_str t ''[]''"
  shows "weaviateDataType (t # ts) =
     (if toLowerCase (replace t ''[]'' []) = ''string'' \<or> toLowerCase (replace t ''[]'' []) = ''text''
      then ''text[]''
      else if toLowerCase (replace t ''[]'' []) = ''int'' then ''int[]''
      else if toLowerCase (replace t ''[]'' []) = ''number'' then ''number[]''
      else if toLowerCase (replace t ''[]'' []) = ''boolean'' then ''boolean[]''
      else if toLowerCase (replace t ''[]'' []) = ''date'' then ''date[]''
      else ''text[]'')"
proof -
  from assms have "t \<noteq> []" by (auto simp: includes_str_def)
  with assms show ?thesis
    by (simp add: weaviateDataType_def firstDataType_def Let_def)
qed

lemma weaviateDataType_twice_bracketed:
  assumes "includes_str t ''[]''" and "includes_str (replace t ''[]'' []) ''[]''"
  shows "weaviateDataType (t # ts) = ''text[]''"
proof -
  from toLowerCase_keeps_brackets [OF assms(2)] table_words_without_brackets
  have "toLowerCase (replace t ''[]'' []) \<notin> {''string'', ''text'', ''int'', ''number'', ''boolean'', ''date''}"
    by auto
  then show ?thesis by (simp add: weaviateDataType_brackets [OF assms(1)])
qed

lemma weaviateDataType_once_bracketed:
  assumes "includes_str t ''[]''" and "\<not> includes_str (replace t ''[]'' []) ''[]''"
  shows "weaviateDataType (t # ts) = weaviateDataType (replace t ''[]'' [] # ts) @ ''[]''"
  by (simp add: weaviateDataType_brackets [OF assms(1)] weaviateDataType_scalar [OF assms(2)])

lemma weaviateDataType_empty: "weaviateDataType [] = ''text''"
  by (simp add: weaviateDataType_def firstDataType_def Let_def includes_str_def toLowerCase_def
      lower_char_def sublist_Cons_right)

lemma weaviateSchema_members:
  "member (weaviateSchema schema) ''class'' = Some (JString (capitalized (cs_class schema)))"
  "member (weaviateSchema schema) ''properties'' =
     Some (JArray (map mappedProperty (cs_properties schema)))"
  by (simp_all add: weaviateSchema_def optionalMember_def split: option.splits)

lemma mappedProperty_members:
  "member (mappedProperty p) ''name'' = Some (JString (sp_name p))"
  "member (mappedProperty p) ''dataType'' = Some (JArray [JString (weaviateDataType (sp_dataType p))])"
  by (simp_all add: mappedProperty_def)

text \<open>
  C5. With a configured url, \<^verbatim>\<open>createCollection\<close> makes one request, a POST to the
  schema endpoint whose payload has under \<^verbatim>\<open>class\<close> the class of the input with its
  first character in upper case and under \<^verbatim>\<open>properties\<close> one entry per property of the
  input, in order, with its name and with the data type \<open>weaviateDataType\<close> gives. For a
  token \<open>t\<close> without \<^verbatim>\<open>[]\<close> in it, read without regard to case: \<^verbatim>\<open>string\<close> and
  \<^verbatim>\<open>text\<close> give \<^verbatim>\<open>text\<close>; \<^verbatim>\<open>int\<close>, \<^verbatim>\<open>number\<close>, \<^verbatim>\<open>boolean\<close> and
  \<^verbatim>\<open>date\<close> give themselves in lower case; any other token gives \<^verbatim>\<open>text\<close>; and the
  token \<open>t\<close> followed by \<^verbatim>\<open>[]\<close> gives what \<open>t\<close> gives, followed by \<^verbatim>\<open>[]\<close>. A
  property without a data type gets \<^verbatim>\<open>text\<close>. In general a token with \<^verbatim>\<open>[]\<close> in it
  is an array type: it gives what the token without its first \<^verbatim>\<open>[]\<close> gives, followed by
  \<^verbatim>\<open>[]\<close>, and \<^verbatim>\<open>text[]\<close> when that rest still has \<^verbatim>\<open>[]\<close> in it.
\<close>

theorem createCollection_payload:
  assumes "\<not> notConfigured (initializeWeaviate w)"
  shows "sent (snd (createCollection srv schema w)) =
           sent w @ [createRequest (initializeWeaviate w) schema] \<and>
         http_method (createRequest (initializeWeaviate w) schema) = POST \<and>
         url (createRequest (initializeWeaviate w) schema) =
           removeTrailingSlash (weaviateUrl (persisted w)) @ ''/v1/schema'' \<and>
         body (createRequest (initializeWeaviate w) schema) = Some (weaviateSchema schema) \<and>
         member (weaviateSchema schema) ''class'' =
           Some (JString (toUpperCase (take 1 (cs_class schema)) @ drop 1 (cs_class schema))) \<and>
         member (weaviateSchema schema) ''properties'' =
           Some (JArray (map mappedProperty (cs_properties schema))) \<and>
         (\<forall>p \<in> set (cs_properties schema).
            member (mappedProperty p) ''name'' = Some (JString (sp_name p)) \<and>
            member (mappedProperty p) ''dataType'' =
              Some (JArray [JString (weaviateDataType (sp_dataType p))])) \<and>
         weaviateDataType [] = ''text'' \<and>
         (\<not> includes_str t ''[]'' \<longrightarrow>
            (toLowerCase t \<in> {''string'', ''text''} \<longrightarrow> weaviateDataType (t # ts) = ''text'') \<and>
            (toLowerCase t \<in> {''int'', ''number'', ''boolean'', ''date''} \<longrightarrow>
               weaviateDataType (t # ts) = toLowerCase t) \<and>
            (toLowerCase t \<notin> {''string'', ''text'', ''int'', ''number'', ''boolean'', ''date''} \<longrightarrow>
               weaviateDataType (t # ts) = ''text'') \<and>
            weaviateDataType ((t @ ''[]'') # ts) = weaviateDataType (t # ts) @ ''[]'') \<and>
         (includes_str t ''[]'' \<and> \<not> includes_str (replace t ''[]'' []) ''[]'' \<longrightarrow>
            weaviateDataType (t # ts) = weaviateDataType (replace t ''[]'' [] # ts) @ ''[]'') \<and>
         (includes_str t ''[]'' \<and> includes_str (replace t ''[]'' []) ''[]'' \<longrightarrow>
            weaviateDataType (t # ts) = ''text[]'')"
proof -
  have once: "includes_str t ''[]'' \<and> \<not> includes_str (replace t ''[]'' []) ''[]'' \<longrightarrow>
            weaviateDataType (t # ts) = weaviateDataType (replace t ''[]'' [] # ts) @ ''[]''"
    by (simp add: weaviateDataType_once_bracketed)
  have twice: "includes_str t ''[]'' \<and> includes_str (replace t ''[]'' []) ''[]'' \<longrightarrow>
            weaviateDataType (t # ts) = ''text[]''"
    by (simp add: weaviateDataType_twice_bracketed)
  have table: "\<not> includes_str t ''[]'' \<longrightarrow>
            (toLowerCase t \<in> {''string'', ''text''} \<longrightarrow> weaviateDataType (t # ts) = ''text'') \<and>
            (toLowerCase t \<in> {''int'', ''number'', ''boolean'', ''date''} \<longrightarrow>
               weaviateDataType (t # ts) = toLowerCase t) \<and>
            (toLowerCase t \<notin> {''string'', ''text'', ''int'', ''number'', ''boolean'', ''date''} \<longrightarrow>
               weaviateDataType (t # ts) = ''text'') \<and>
            weaviateDataType ((t @ ''[]'') # ts) = weaviateDataType (t # ts) @ ''[]''"
  proof
    assume scalar: "\<not> includes_str t ''[]''"
    have "weaviateDataType ((t @ ''[]'') # ts) = weaviateDataType (t # ts) @ ''[]''"
      by (rule weaviateDataType_array [OF scalar])
    moreover have "toLowerCase t \<in> {''string'', ''text''} \<longrightarrow> weaviateDataType (t # ts) = ''text''"
      by (auto simp: weaviateDataType_scalar [OF scalar])
    moreover have "toLowerCase t \<in> {''int'', ''number'', ''boolean'', ''date''} \<longrightarrow>
               weaviateDataType (t # ts) = toLowerCase t"
      by (auto simp: weaviateDataType_scalar [OF scalar])
    moreover have "toLowerCase t \<notin> {''string'', ''text'', ''int'', ''number'', ''boolean'', ''date''} \<longrightarrow>
               weaviateDataType (t # ts) = ''text''"
      by (auto simp: weaviateDataType_scalar [OF scalar])
    ultimately show "(toLowerCase t \<in> {''string'', ''text''} \<longrightarrow> weaviateDataType (t # ts) = ''text'') \<and>
            (toLowerCase t \<in> {''int'', ''number'', ''boolean'', ''date''} \<longrightarrow>
               weaviateDataType (t # ts) = toLowerCase t) \<and>
            (toLowerCase t \<notin> {''string'', ''text'', ''int'', ''number'', ''boolean'', ''date''} \<longrightarrow>
               weaviateDataType (t # ts) = ''text'') \<and>
            weaviateDataType ((t @ ''[]'') # ts) = weaviateDataType (t # ts) @ ''[]''"
      by blast
  qed
  have req: "http_method (createRequest (initializeWeaviate w) schema) = POST"
    "url (createRequest (initializeWeaviate w) schema) =
           removeTrailingSlash (weaviateUrl (persisted w)) @ ''/v1/schema''"
    "body (createRequest (initializeWeaviate w) schema) = Some (weaviateSchema schema)"
    by (simp_all add: createRequest_def initializeWeaviate_simps)
  have cls: "member (weaviateSchema schema) ''class'' =
           Some (JString (toUpperCase (take 1 (cs_class schema)) @ drop 1 (cs_class schema)))"
    by (simp only: weaviateSchema_members capitalized_def)
  show ?thesis
    using createCollection_sent [OF assms] req cls weaviateSchema_members(2) [of schema]
      mappedProperty_members weaviateDataType_empty table once twice
    by (intro conjI ballI) blast+
qed

lemma ex_schema_payload:
  "weaviateSchema ex_schema =
     JObject [(''class'', JString ''Article''),
              (''properties'', JArray
                 [JObject [(''name'', JString ''title''), (''dataType'', JArray [JString ''text''])],
                  JObject [(''name'', JString ''pages''), (''dataType'', JArray [JString ''int[]'']),
                           (''description'', JString ''page numbers'')],
                  JObject [(''name'', JString ''place''), (''dataType'', JArray [JString ''text''])],
                  JObject [(''name'', JString ''tags''), (''dataType'', JArray [JString ''text[]''])]])]"
  by code_simp

lemma lower_examples:
  "toLowerCase ''Date'' = ''date''" "toLowerCase ''geo'' = ''geo''"
  "toLowerCase ''String'' = ''string''"
  "\<not> includes_str ''Date'' ''[]''" "\<not> includes_str ''geo'' ''[]''"
  "\<not> includes_str ''String'' ''[]''"
  by code_simp+

lemma bracket_examples:
  "includes_str ''[]int'' ''[]''" "replace ''[]int'' ''[]'' [] = ''int''"
  "\<not> includes_str ''int'' ''[]''" "toLowerCase ''int'' = ''int''"
  "includes_str ''int[][]'' ''[]''" "replace ''int[][]'' ''[]'' [] = ''int[]''"
  "includes_str ''int[]'' ''[]''"
  by code_simp+

theorem createCollection_payload_witness:
  "sent (snd (createCollection ex_delete_store ex_schema ex_world)) =
     [createRequest (initializeWeaviate ex_world) ex_schema] \<and>
   body (createRequest (initializeWeaviate ex_world) ex_schema) =
     Some (JObject [(''class'', JString ''Article''),
              (''properties'', JArray
                 [JObject [(''name'', JString ''title''), (''dataType'', JArray [JString ''text''])],
                  JObject [(''name'', JString ''pages''), (''dataType'', JArray [JString ''int[]'']),
                           (''description'', JString ''page numbers'')],
                  JObject [(''name'', JString ''place''), (''dataType'', JArray [JString ''text''])],
                  JObject [(''name'', JString ''tags''), (''dataType'', JArray [JString ''text[]''])]])]) \<and>
   weaviateDataType [''Date''] = ''date'' \<and>
   weaviateDataType [''Date[]''] = ''date[]'' \<and>
   weaviateDataType [''geo''] = ''text'' \<and>
   weaviateDataType [''geo[]''] = ''text[]'' \<and>
   weaviateDataType [''String''] = ''text'' \<and>
   weaviateDataType [''[]int''] = ''int[]'' \<and>
   weaviateDataType [''int[][]''] = ''text[]'' \<and>
   member (mappedProperty
             \<lparr>sp_name = ''pages'', sp_dataType = [''INT[]''], sp_description = Some ''page numbers''\<rparr>)
     ''dataType'' = Some (JArray [JString ''int[]''])"
proof -
  note date = createCollection_payload [OF ex_world_configured, where srv = ex_delete_store
      and schema = ex_schema and t = "''Date''" and ts = "[]"]
  note geo = createCollection_payload [OF ex_world_configured, where srv = ex_delete_store
      and schema = ex_schema and t = "''geo''" and ts = "[]"]
  have s: "sent ex_world = []" by (simp add: ex_world_def)
  from date have 1: "sent (snd (createCollection ex_delete_store ex_schema ex_world)) =
     [createRequest (initializeWeaviate ex_world) ex_schema]"
    by (simp add: s)
  from date have 2: "body (createRequest (initializeWeaviate ex_world) ex_schema) =
     Some (weaviateSchema ex_schema)" by blast
  from date have 3: "weaviateDataType [''Date''] = ''date'' \<and> weaviateDataType [''Date[]''] = ''date[]''"
    by (simp add: lower_examples)
  from geo have 4: "weaviateDataType [''geo''] = ''text'' \<and> weaviateDataType [''geo[]''] = ''text[]''"
    by (simp add: lower_examples)
  note str = createCollection_payload [OF ex_world_configured, where srv = ex_delete_store
      and schema = ex_schema and t = "''String''" and ts = "[]"]
  note once = createCollection_payload [OF ex_world_configured, where srv = ex_delete_store
      and schema = ex_schema and t = "''[]int''" and ts = "[]"]
  note twice = createCollection_payload [OF ex_world_configured, where srv = ex_delete_store
      and schema = ex_schema and t = "''int[][]''" and ts = "[]"]
  from str have 5: "weaviateDataType [''String''] = ''text''"
    by (simp add: lower_examples)
  from once bracket_examples(1,2,3)
  have "weaviateDataType [''[]int''] = weaviateDataType [''int''] @ ''[]''"
    by simp
  moreover from createCollection_payload [OF ex_world_configured, where srv = ex_delete_store
      and schema = ex_schema and t = "''int''" and ts = "[]"] bracket_examples(3,4)
  have "weaviateDataType [''int''] = ''int''"
    by simp
  ultimately have 6: "weaviateDataType [''[]int''] = ''int[]''" by simp
  from twice bracket_examples(5,6,7) have 7: "weaviateDataType [''int[][]''] = ''text[]''"
    by simp
  have pages: "\<lparr>sp_name = ''pages'', sp_dataType = [''INT[]''], sp_description = Some ''page numbers''\<rparr>
      \<in> set (cs_properties ex_schema)"
    by (simp add: ex_schema_def)
  have int_array: "weaviateDataType [''INT[]''] = ''int[]''" by code_simp
  from date pages
  have "member (mappedProperty
             \<lparr>sp_name = ''pages'', sp_dataType = [''INT[]''], sp_description = Some ''page numbers''\<rparr>)
     ''dataType'' = Some (JArray [JString (weaviateDataType (sp_dataType
             \<lparr>sp_name = ''pages'', sp_dataType = [''INT[]''], sp_description = Some ''page numbers''\<rparr>))])"
    by blast
  then have 8: "member (mappedProperty
             \<lparr>sp_name = ''pages'', sp_dataType = [''INT[]''], sp_description = Some ''page numbers''\<rparr>)
     ''dataType'' = Some (JArray [JString ''int[]''])"
    by (simp add: int_array)
  from 1 2 3 4 5 6 7 8 show ?thesis by (simp only: ex_schema_payload)
qed

subsection \<open>Fetching one object\<close>

text \<open>
  C6. With a configured url, \<^verbatim>\<open>getObjectById\<close> makes one GET request for the object. When
  the store answers 404 it returns \<^verbatim>\<open>null\<close>, the marker of an absent object, and throws
  nothing. When the store answers any other status outside 200 to 299 it throws
  \<^verbatim>\<open>Error("Failed to fetch object: " + statusText)\<close>. When the store answers with a 2xx
  status and an envelope, it returns the value the envelope holds under
  \<^verbatim>\<open>properties\<close> and nothing else of the envelope; an envelope without properties gives
  the empty object.
\<close>

theorem getObjectById_results:
  assumes "\<not> notConfigured (initializeWeaviate w)"
    and "srv (sent w) (objectRequest (initializeWeaviate w) objectId) = Response r"
  shows "(status r = 404 \<longrightarrow>
            getObjectById srv className objectId w =
              (Inr JNull,
               (initializeWeaviate w)\<lparr>sent := sent w @ [objectRequest (initializeWeaviate w) objectId]\<rparr>)) \<and>
         (\<not> ok r \<and> status r \<noteq> 404 \<longrightarrow>
            getObjectById srv className objectId w =
              (Inl (Error (''Failed to fetch object: '' @ statusText r)),
               (initializeWeaviate w)\<lparr>sent := sent w @ [objectRequest (initializeWeaviate w) objectId]\<rparr>)) \<and>
         (ok r \<and> parsed r = Some envelope \<and> member envelope ''properties'' = Some props \<and>
          truthy (Some props) \<longrightarrow>
            getObjectById srv className objectId w =
              (Inr props,
               (initializeWeaviate w)\<lparr>sent := sent w @ [objectRequest (initializeWeaviate w) objectId]\<rparr>)) \<and>
         (ok r \<and> parsed r = Some envelope \<and> envelope \<noteq> JNull \<and>
          \<not> truthy (member envelope ''properties'') \<longrightarrow>
            getObjectById srv className objectId w =
              (Inr (JObject []),
               (initializeWeaviate w)\<lparr>sent := sent w @ [objectRequest (initializeWeaviate w) objectId]\<rparr>))"
proof -
  have nu: "envelope \<noteq> JNull \<Longrightarrow>
      get_prop (Some envelope) ''properties'' = Inr (member envelope ''properties'')"
    by (cases envelope) (simp_all add: get_prop_def)
  have nn: "member envelope ''properties'' = Some props \<Longrightarrow>
      get_prop (Some envelope) ''properties'' = Inr (Some props)"
    by (cases envelope) (simp_all add: get_prop_def)
  show ?thesis
    using assms
    by (auto simp: getObjectById_def Let_def fetch_def initializeWeaviate_simps ok_def nn nu
        or_else_def split: option.splits)
qed

theorem getObjectById_results_witness:
  "fst (getObjectById ex_object_store ''Article'' ''missing-id'' ex_world) = Inr JNull \<and>
   fst (getObjectById ex_object_store ''Article'' ''broken'' ex_world) =
     Inl (Error ''Failed to fetch object: Internal Server Error'') \<and>
   fst (getObjectById ex_object_store ''Article'' ''a'' ex_world) =
     Inr (JObject [(''title'', JString ''Whales'')]) \<and>
   fst (getObjectById ex_object_store ''Article'' ''bare'' ex_world) = Inr (JObject [])"
proof -
  have req: "objectRequest (initializeWeaviate ex_world) oid =
      \<lparr>url = ''http://localhost:8080/v1/objects/'' @ oid, http_method = GET,
       headers = [(''Content-Type'', ''application/json'')], body = None\<rparr>" for oid
    by (simp add: objectRequest_def getHeaders_def initializeWeaviate_simps ex_world_def)
  have a: "ex_object_store (sent ex_world) (objectRequest (initializeWeaviate ex_world) ''missing-id'') =
      Response \<lparr>status = 404, statusText = ''Not Found'', bodyText = '''', parsed = None\<rparr>"
    by (simp add: req ex_object_store_def)
  have b: "ex_object_store (sent ex_world) (objectRequest (initializeWeaviate ex_world) ''broken'') =
      Response \<lparr>status = 500, statusText = ''Internal Server Error'', bodyText = '''', parsed = None\<rparr>"
    by (simp add: req ex_object_store_def)
  have c: "ex_object_store (sent ex_world) (objectRequest (initializeWeaviate ex_world) ''a'') =
      Response \<lparr>status = 200, statusText = ''OK'', bodyText = '''',
             parsed = Some (JObject [(''class'', JString ''Article''), (''id'', JString ''a''),
                       (''properties'', JObject [(''title'', JString ''Whales'')])])\<rparr>"
    by (simp add: req ex_object_store_def)
  from getObjectById_results [where srv = ex_object_store and w = ex_world and objectId = "''missing-id''",
      OF ex_world_configured a, where className = "''Article''"]
  have 1: "fst (getObjectById ex_object_store ''Article'' ''missing-id'' ex_world) = Inr JNull"
    by simp
  from getObjectById_results [where srv = ex_object_store and w = ex_world and objectId = "''broken''",
      OF ex_world_configured b, where className = "''Article''"]
  have 2: "fst (getObjectById ex_object_store ''Article'' ''broken'' ex_world) =
     Inl (Error ''Failed to fetch object: Internal Server Error'')"
    by (simp add: ok_def)
  from getObjectById_results [where srv = ex_object_store and w = ex_world and objectId = "''a''",
      OF ex_world_configured c, where className = "''Article''"
      and envelope = "JObject [(''class'', JString ''Article''), (''id'', JString ''a''),
                       (''properties'', JObject [(''title'', JString ''Whales'')])]"
      and props = "JObject [(''title'', JString ''Whales'')]"]
  have 3: "fst (getObjectById ex_object_store ''Article'' ''a'' ex_world) =
     Inr (JObject [(''title'', JString ''Whales'')])"
    by (simp add: ok_def)
  have d: "ex_object_store (sent ex_world) (objectRequest (initializeWeaviate ex_world) ''bare'') =
      Response \<lparr>status = 200, statusText = ''OK'', bodyText = '''',
             parsed = Some (JObject [(''class'', JString ''Article''), (''id'', JString ''bare'')])\<rparr>"
    by (simp add: req ex_object_store_def)
  from getObjectById_results [where srv = ex_object_store and w = ex_world and objectId = "''bare''",
      OF ex_world_configured d, where className = "''Article''"
      and envelope = "JObject [(''class'', JString ''Article''), (''id'', JString ''bare'')]"]
  have 4: "fst (getObjectById ex_object_store ''Article'' ''bare'' ex_world) = Inr (JObject [])"
    by (simp add: ok_def)
  from 1 2 3 4 show ?thesis by blast
qed

subsection \<open>The shape of a query response\<close>

text \<open>
  A 2xx response that holds \<^verbatim>\<open>data.Get\<close> without the key of the collection is not an
  error: the page fetch and the search both return the empty list.
\<close>

theorem missing_collection_key_gives_no_rows:
  "fst (getCollectionData (ex_get_store (JObject [])) ''Article'' ex_columns None (Some 10) (Some 0)
          ex_world) = Inr (JArray []) \<and>
   fst (searchCollections (ex_search_store (JObject [])) ex_options ex_world) = Inr (JArray [])"
  by code_simp

text \<open>
  C7 (as amended). For a 2xx response to the query of a page fetch, and to the query of a
  search whose schema listing succeeded, the result is \<open>responseRows\<close> of the response
  and the name of the collection: the error
  \<^verbatim>\<open>Error("Invalid response structure from Weaviate")\<close> when the response has no truthy
  \<^verbatim>\<open>data.Get\<close>; the empty list when \<^verbatim>\<open>data.Get\<close> is there and holds nothing truthy
  under the name of the collection; and what it holds under that name otherwise.
\<close>

theorem response_shape_checked_down_to_Get:
  "(\<not> notConfigured (initializeWeaviate w) \<and>
    srv (sent w) (graphqlRequest (initializeWeaviate w)
                    (collectionDataQuery className columns sort' lim offset)) = Response r \<and>
    ok r \<and> parsed r = Some response \<longrightarrow>
      fst (getCollectionData srv className columns sort' lim offset w) =
        responseRows response className) \<and>
   (\<not> notConfigured (initializeWeaviate w) \<and>
    getCollections srv (initializeWeaviate w) = (Inr collections, w') \<and>
    srv (sent w') (graphqlRequest (initializeWeaviate w)
                     (graphqlQuery (so_collectionName options) (searchDirective options)
                        (limitValue options)
                        (propertiesToFetch collections (so_collectionName options)))) = Response r \<and>
    ok r \<and> parsed r = Some response \<longrightarrow>
      fst (searchCollections srv options w) = responseRows response (so_collectionName options)) \<and>
   (\<not> truthy (opt_prop (opt_prop (Some response) ''data'') ''Get'') \<longrightarrow>
      responseRows response name = Inl invalidStructure) \<and>
   (opt_prop (opt_prop (Some response) ''data'') ''Get'' = Some get \<and> truthy (Some get) \<and>
    \<not> truthy (member get name) \<longrightarrow>
      responseRows response name = Inr (JArray [])) \<and>
   (opt_prop (opt_prop (Some response) ''data'') ''Get'' = Some get \<and> truthy (Some get) \<and>
    member get name = Some rows \<and> truthy (Some rows) \<longrightarrow>
      responseRows response name = Inr rows)"
proof -
  have a: "\<not> notConfigured (initializeWeaviate w) \<and>
    srv (sent w) (graphqlRequest (initializeWeaviate w)
                    (collectionDataQuery className columns sort' lim offset)) = Response r \<and>
    ok r \<and> parsed r = Some response \<longrightarrow>
      fst (getCollectionData srv className columns sort' lim offset w) =
        responseRows response className"
    by (simp add: getCollectionData_rows)
  have b: "\<not> notConfigured (initializeWeaviate w) \<and>
    getCollections srv (initializeWeaviate w) = (Inr collections, w') \<and>
    srv (sent w') (graphqlRequest (initializeWeaviate w)
                     (graphqlQuery (so_collectionName options) (searchDirective options)
                        (limitValue options)
                        (propertiesToFetch collections (so_collectionName options)))) = Response r \<and>
    ok r \<and> parsed r = Some response \<longrightarrow>
      fst (searchCollections srv options w) = responseRows response (so_collectionName options)"
    by (simp add: searchCollections_rows)
  from a b responseRows_cases [where response = response and className = name and get = get and rows = rows] show ?thesis by blast
qed

theorem response_shape_checked_down_to_Get_witness:
  "fst (getCollectionData (ex_body_store ex_errors) ''Article'' ex_columns None (Some 10) (Some 0)
          ex_world) = Inl invalidStructure \<and>
   fst (getCollectionData (ex_get_store (JObject [])) ''Article'' ex_columns None (Some 10) (Some 0)
          ex_world) = Inr (JArray []) \<and>
   fst (searchCollections (ex_search_store (JObject [(''Article'', ex_rows)])) ex_options ex_world) =
     Inr ex_rows"
proof -
  let ?q = "collectionDataQuery ''Article'' ex_columns None (Some 10) (Some 0)"
  let ?ok = "\<lambda>j. \<lparr>status = 200, statusText = ''OK'', bodyText = '''', parsed = Some j\<rparr>"
  have okr: "ok (?ok j)" for j by (simp add: ok_def)
  have par: "parsed (?ok j) = Some j" for j by simp
  note cfg = ex_world_configured
  \<comment> \<open>no \<^verbatim>\<open>data\<close> in the response\<close>
  have s1: "ex_body_store ex_errors (sent ex_world) (graphqlRequest (initializeWeaviate ex_world) ?q) =
      Response (?ok ex_errors)"
    by (simp add: ex_body_store_def)
  have g1: "\<not> truthy (opt_prop (opt_prop (Some ex_errors) ''data'') ''Get'')"
    by (simp add: ex_errors_def opt_prop_def)
  note T1 = response_shape_checked_down_to_Get [where w = ex_world and srv = "ex_body_store ex_errors"
      and className = "''Article''" and columns = ex_columns and sort' = None and lim = "Some 10"
      and offset = "Some 0" and r = "?ok ex_errors" and response = ex_errors and name = "''Article''"]
  from T1 cfg s1 okr par g1
  have 1: "fst (getCollectionData (ex_body_store ex_errors) ''Article'' ex_columns None (Some 10)
      (Some 0) ex_world) = Inl invalidStructure"
    by metis
  \<comment> \<open>\<^verbatim>\<open>data.Get\<close> without the collection\<close>
  let ?empty = "JObject [(''data'', JObject [(''Get'', JObject [])])]"
  have s2: "ex_get_store (JObject []) (sent ex_world) (graphqlRequest (initializeWeaviate ex_world) ?q) =
      Response (?ok ?empty)"
    by (simp add: ex_get_store_def)
  have g2: "opt_prop (opt_prop (Some ?empty) ''data'') ''Get'' = Some (JObject []) \<and>
      truthy (Some (JObject [])) \<and> \<not> truthy (member (JObject []) ''Article'')"
    by (simp add: opt_prop_def)
  note T2 = response_shape_checked_down_to_Get [where w = ex_world and srv = "ex_get_store (JObject [])"
      and className = "''Article''" and columns = ex_columns and sort' = None and lim = "Some 10"
      and offset = "Some 0" and r = "?ok ?empty" and response = ?empty and name = "''Article''"
      and get = "JObject []"]
  from T2 cfg s2 okr par g2
  have 2: "fst (getCollectionData (ex_get_store (JObject [])) ''Article'' ex_columns None (Some 10)
      (Some 0) ex_world) = Inr (JArray [])"
    by metis
  \<comment> \<open>rows under the collection\<close>
  let ?g = "JObject [(''Article'', ex_rows)]"
  let ?full = "JObject [(''data'', JObject [(''Get'', ?g)])]"
  let ?sq = "graphqlQuery (so_collectionName ex_options) (searchDirective ex_options)
      (limitValue ex_options) (propertiesToFetch ex_collections (so_collectionName ex_options))"
  have s3: "ex_search_store ?g (sent ex_listed_world) (graphqlRequest (initializeWeaviate ex_world) ?sq) =
      Response (?ok ?full)"
    by (simp add: ex_search_store_def ex_get_store_def ex_listed_world_def)
  have n3: "so_collectionName ex_options = ''Article''" by (simp add: ex_options_def)
  have g3: "opt_prop (opt_prop (Some ?full) ''data'') ''Get'' = Some ?g \<and> truthy (Some ?g) \<and>
      member ?g ''Article'' = Some ex_rows \<and> truthy (Some ex_rows)"
    by (simp add: opt_prop_def ex_rows_def)
  note T3 = response_shape_checked_down_to_Get [where w = ex_world and srv = "ex_search_store ?g"
      and collections = ex_collections and w' = ex_listed_world and options = ex_options
      and r = "?ok ?full" and response = ?full and name = "''Article''" and get = ?g
      and rows = ex_rows]
  from T3 cfg ex_getCollections [of ?g] s3 okr par g3 n3
  have 3: "fst (searchCollections (ex_search_store ?g) ex_options ex_world) = Inr ex_rows"
    by metis
  from 1 2 3 show ?thesis by blast
qed

subsection \<open>Validation of a new collection\<close>

lemma validProperties_empty:
  "validProperties props = [] \<longleftrightarrow> (\<forall>p \<in> set props. trim (fp_name p) = [])"
  by (auto simp: validProperties_def filter_empty_conv)

text \<open>
  \<^verbatim>\<open>createCollection\<close> does not check its input: for a schema with an empty name and no
  property it posts the payload, and returns when the store accepts it.
\<close>

theorem createCollection_posts_empty_schema:
  "createCollection (ex_body_store (JObject [])) ex_empty_schema ex_world =
     (Inr (),
      (initializeWeaviate ex_world)\<lparr>sent :=
         [\<lparr>url = ''http://localhost:8080/v1/schema'', http_method = POST,
           headers = [(''Content-Type'', ''application/json'')],
           body = Some (JObject [(''class'', JString ''''), (''properties'', JArray [])])\<rparr>]\<rparr>)"
  by code_simp

text \<open>
  C8 (as amended). The input is checked by the form, before \<^verbatim>\<open>createCollection\<close> is
  called. When the name is blank \<^verbatim>\<open>handleSubmit\<close> ends with
  \<^verbatim>\<open>Error("Collection name is required")\<close>, and when no property has a name that is not
  blank it ends with \<^verbatim>\<open>Error("At least one property is required")\<close>; in both cases the
  world is unchanged, so no request has been made. Otherwise it calls
  \<^verbatim>\<open>createCollection\<close> with the trimmed, capitalized name and the named properties.
  \<^verbatim>\<open>createCollection\<close> itself, with a configured url, posts whatever schema it is given.
\<close>

theorem createCollection_input_checked_by_form:
  "(trim collectionName = [] \<longrightarrow>
      handleSubmit srv collectionName description props w =
        (Inl (Error ''Collection name is required''), w)) \<and>
   (trim collectionName \<noteq> [] \<and> (\<forall>p \<in> set props. trim (fp_name p) = []) \<longrightarrow>
      handleSubmit srv collectionName description props w =
        (Inl (Error ''At least one property is required''), w)) \<and>
   (trim collectionName \<noteq> [] \<and> (\<exists>p \<in> set props. trim (fp_name p) \<noteq> []) \<longrightarrow>
      handleSubmit srv collectionName description props w =
        createCollection srv
          \<lparr>cs_class = capitalized (trim collectionName),
           cs_description = nonEmpty (trim description),
           cs_properties = validProperties props\<rparr> w) \<and>
   (\<not> notConfigured (initializeWeaviate w) \<longrightarrow>
      sent (snd (createCollection srv schema w)) =
        sent w @ [createRequest (initializeWeaviate w) schema])"
proof -
  have a: "trim collectionName = [] \<longrightarrow>
      handleSubmit srv collectionName description props w =
        (Inl (Error ''Collection name is required''), w)"
    by (simp add: handleSubmit_def)
  have b: "trim collectionName \<noteq> [] \<and> (\<forall>p \<in> set props. trim (fp_name p) = []) \<longrightarrow>
      handleSubmit srv collectionName description props w =
        (Inl (Error ''At least one property is required''), w)"
    using validProperties_empty [of props] by (simp add: handleSubmit_def)
  have c: "trim collectionName \<noteq> [] \<and> (\<exists>p \<in> set props. trim (fp_name p) \<noteq> []) \<longrightarrow>
      handleSubmit srv collectionName description props w =
        createCollection srv
          \<lparr>cs_class = capitalized (trim collectionName),
           cs_description = nonEmpty (trim description),
           cs_properties = validProperties props\<rparr> w"
    using validProperties_empty [of props] by (auto simp: handleSubmit_def)
  from a b c createCollection_sent [of w srv schema] show ?thesis by blast
qed

theorem createCollection_input_checked_by_form_witness:
  "handleSubmit (ex_body_store (JObject [])) ''  '' '''' 
      [\<lparr>fp_name = ''title'', fp_dataType = [''string''], fp_description = ''''\<rparr>] ex_world =
     (Inl (Error ''Collection name is required''), ex_world) \<and>
   handleSubmit (ex_body_store (JObject [])) ''article'' ''''
      [\<lparr>fp_name = '' '', fp_dataType = [''string''], fp_description = ''''\<rparr>] ex_world =
     (Inl (Error ''At least one property is required''), ex_world) \<and>
   handleSubmit (ex_body_store (JObject [])) ''article'' ''''
      [\<lparr>fp_name = ''title'', fp_dataType = [''string''], fp_description = ''''\<rparr>] ex_world =
     createCollection (ex_body_store (JObject []))
       \<lparr>cs_class = ''Article'', cs_description = None,
        cs_properties = [\<lparr>sp_name = ''title'', sp_dataType = [''string''], sp_description = None\<rparr>]\<rparr>
       ex_world \<and>
   sent (snd (createCollection (ex_body_store (JObject [])) ex_empty_schema ex_world)) =
     [createRequest (initializeWeaviate ex_world) ex_empty_schema]"
proof -
  let ?titled = "[\<lparr>fp_name = ''title'', fp_dataType = [''string''], fp_description = ''''\<rparr>]"
  let ?blank = "[\<lparr>fp_name = '' '', fp_dataType = [''string''], fp_description = ''''\<rparr>]"
  have t: "trim ''  '' = []" "trim ''article'' \<noteq> []" "trim '' '' = []" "trim ''title'' \<noteq> []"
    by (simp_all add: trim_def is_space_def)
  have v: "capitalized (trim ''article'') = ''Article''" "nonEmpty (trim '''') = None"
    "validProperties ?titled =
       [\<lparr>sp_name = ''title'', sp_dataType = [''string''], sp_description = None\<rparr>]"
    by code_simp+
  note A = createCollection_input_checked_by_form [where srv = "ex_body_store (JObject [])"
      and w = ex_world and collectionName = "''  ''" and description = "''''" and props = ?titled
      and schema = ex_empty_schema]
  note B = createCollection_input_checked_by_form [where srv = "ex_body_store (JObject [])"
      and w = ex_world and collectionName = "''article''" and description = "''''" and props = ?blank
      and schema = ex_empty_schema]
  note C = createCollection_input_checked_by_form [where srv = "ex_body_store (JObject [])"
      and w = ex_world and collectionName = "''article''" and description = "''''" and props = ?titled
      and schema = ex_empty_schema]
  from A t(1) have 1: "handleSubmit (ex_body_store (JObject [])) ''  '' '''' ?titled ex_world =
     (Inl (Error ''Collection name is required''), ex_world)" by blast
  have hb: "\<forall>p \<in> set ?blank. trim (fp_name p) = []" by (simp add: t)
  from B t(2) hb have 2: "handleSubmit (ex_body_store (JObject [])) ''article'' '''' ?blank ex_world =
     (Inl (Error ''At least one property is required''), ex_world)" by blast
  have hc: "\<exists>p \<in> set ?titled. trim (fp_name p) \<noteq> []" by (simp add: t)
  from C t(2) hc have "handleSubmit (ex_body_store (JObject [])) ''article'' '''' ?titled ex_world =
     createCollection (ex_body_store (JObject []))
       \<lparr>cs_class = capitalized (trim ''article''), cs_description = nonEmpty (trim ''''),
        cs_properties = validProperties ?titled\<rparr> ex_world" by blast
  then have 3: "handleSubmit (ex_body_store (JObject [])) ''article'' '''' ?titled ex_world =
     createCollection (ex_body_store (JObject []))
       \<lparr>cs_class = ''Article'', cs_description = None,
        cs_properties = [\<lparr>sp_name = ''title'', sp_dataType = [''string''], sp_description = None\<rparr>]\<rparr>
       ex_world" by (simp only: v)
  from C ex_world_configured
  have "sent (snd (createCollection (ex_body_store (JObject [])) ex_empty_schema ex_world)) =
     sent ex_world @ [createRequest (initializeWeaviate ex_world) ex_empty_schema]" by blast
  then have 4: "sent (snd (createCollection (ex_body_store (JObject [])) ex_empty_schema ex_world)) =
     [createRequest (initializeWeaviate ex_world) ex_empty_schema]"
    by (simp add: ex_world_def)
  from 1 2 3 4 show ?thesis by blast
qed

subsection \<open>The identity-and-score sidecar of a row\<close>

lemma map_of_setMember: "map_of (setMember k v kvs) k = Some v"
  by (induction kvs) auto

lemma setMember_same: "map_of kvs k = Some v \<Longrightarrow> setMember k v kvs = kvs"
  by (induction kvs) (auto split: if_splits)

lemma truthy_or_else: "truthy (Some d) \<Longrightarrow> truthy (Some (or_else a d))"
  by (auto simp: or_else_def split: option.splits)

lemma normalizeResult_additional: "truthy (member (normalizeResult row) ''_additional'')"
  by (simp add: normalizeResult_def map_of_setMember truthy_or_else defaultAdditional_def)

lemma normalizeResult_object:
  "normalizeResult (JObject kvs) =
     (if truthy (map_of kvs ''_additional'') then JObject kvs
      else JObject (setMember ''_additional'' defaultAdditional kvs))"
  by (auto simp: normalizeResult_def or_else_def setMember_same split: option.splits)

lemma normalizeResult_not_object:
  "\<not> isObject row \<Longrightarrow> normalizeResult row = JObject [(''_additional'', defaultAdditional)]"
  by (simp add: normalizeResult_def)

lemma handleSearch_delivers:
  assumes "handleSearch srv searchQuery selectedCollection st lim selected w = (Inr delivered, w')"
  shows "\<exists>rows. fst (searchCollections srv
                  \<lparr>so_query = searchQuery, so_collectionName = selectedCollection,
                   so_searchType = Some st, so_limit = Some lim,
                   so_properties = (if length selected > 0 then Some selected else None)\<rparr>
                  (initializeWeaviate w)) = Inr (JArray rows) \<and>
           delivered = map normalizeResult rows"
  using assms
  by (auto simp: handleSearch_def split: if_splits prod.splits sum.splits json.splits)

text \<open>
  The page fetch returns the rows as the store sent them: a row that the store sent
  without \<^verbatim>\<open>_additional\<close> reaches the caller without it.
\<close>

theorem rows_without_sidecar_are_listed:
  "fst (getCollectionData (ex_get_store (JObject [(''Article'', ex_rows)])) ''Article'' ex_columns None
          (Some 10) (Some 0) ex_world) =
     Inr (JArray [JObject [(''_additional'', JObject [(''id'', JString ''a'')]),
                            (''title'', JString ''Whales'')],
                  JObject [(''title'', JString ''Eels'')]]) \<and>
   member (JObject [(''title'', JString ''Eels'')]) ''_additional'' = None"
  by code_simp

text \<open>
  C9 (as amended). The access layer returns the rows of a page fetch and of a search as the
  store sent them, with nothing defaulted. The search view then maps \<open>normalizeResult\<close>
  over the rows of a search: a row that is a JSON object with a truthy \<^verbatim>\<open>_additional\<close>
  is unchanged, a JSON object without one gets \<^verbatim>\<open>_additional\<close> set to
  \<^verbatim>\<open>{id: "", score: 0}\<close> and is otherwise unchanged, and a row that is neither an
  object nor an array is replaced by an object that holds this default alone. So every row
  that the search view delivers has a truthy \<^verbatim>\<open>_additional\<close>.
\<close>

theorem sidecar_defaulted_by_search_view:
  "(\<not> notConfigured (initializeWeaviate w) \<and>
    srv (sent w) (graphqlRequest (initializeWeaviate w)
                    (collectionDataQuery className columns sort' lim offset)) = Response r \<and>
    ok r \<and> parsed r = Some response \<and>
    opt_prop (opt_prop (Some response) ''data'') ''Get'' = Some get \<and> truthy (Some get) \<and>
    member get className = Some rows \<and> truthy (Some rows) \<longrightarrow>
      fst (getCollectionData srv className columns sort' lim offset w) = Inr rows) \<and>
   (\<not> notConfigured (initializeWeaviate w) \<and>
    getCollections srv (initializeWeaviate w) = (Inr collections, w') \<and>
    srv (sent w') (graphqlRequest (initializeWeaviate w)
                     (graphqlQuery (so_collectionName options) (searchDirective options)
                        (limitValue options)
                        (propertiesToFetch collections (so_collectionName options)))) = Response r \<and>
    ok r \<and> parsed r = Some response \<and>
    opt_prop (opt_prop (Some response) ''data'') ''Get'' = Some get \<and> truthy (Some get) \<and>
    member get (so_collectionName options) = Some rows \<and> truthy (Some rows) \<longrightarrow>
      fst (searchCollections srv options w) = Inr rows) \<and>
   (handleSearch srv searchQuery selectedCollection st n selected w = (Inr delivered, v) \<longrightarrow>
      (\<exists>found. fst (searchCollections srv
                  \<lparr>so_query = searchQuery, so_collectionName = selectedCollection,
                   so_searchType = Some st, so_limit = Some n,
                   so_properties = (if length selected > 0 then Some selected else None)\<rparr>
                  (initializeWeaviate w)) = Inr (JArray found) \<and>
               delivered = map normalizeResult found) \<and>
      (\<forall>row \<in> set delivered. truthy (member row ''_additional''))) \<and>
   normalizeResult (JObject kvs) =
     (if truthy (map_of kvs ''_additional'') then JObject kvs
      else JObject (setMember ''_additional'' defaultAdditional kvs)) \<and>
   (\<not> isObject row \<longrightarrow> normalizeResult row = JObject [(''_additional'', defaultAdditional)]) \<and>
   defaultAdditional = JObject [(''id'', JString ''''), (''score'', JNumber 0)]"
proof -
  have a: "\<not> notConfigured (initializeWeaviate w) \<and>
    srv (sent w) (graphqlRequest (initializeWeaviate w)
                    (collectionDataQuery className columns sort' lim offset)) = Response r \<and>
    ok r \<and> parsed r = Some response \<and>
    opt_prop (opt_prop (Some response) ''data'') ''Get'' = Some get \<and> truthy (Some get) \<and>
    member get className = Some rows \<and> truthy (Some rows) \<longrightarrow>
      fst (getCollectionData srv className columns sort' lim offset w) = Inr rows"
    using responseRows_cases [where response = response and className = className and get = get
        and rows = rows]
    by (simp add: getCollectionData_rows)
  have b: "\<not> notConfigured (initializeWeaviate w) \<and>
    getCollections srv (initializeWeaviate w) = (Inr collections, w') \<and>
    srv (sent w') (graphqlRequest (initializeWeaviate w)
                     (graphqlQuery (so_collectionName options) (searchDirective options)
                        (limitValue options)
                        (propertiesToFetch collections (so_collectionName options)))) = Response r \<and>
    ok r \<and> parsed r = Some response \<and>
    opt_prop (opt_prop (Some response) ''data'') ''Get'' = Some get \<and> truthy (Some get) \<and>
    member get (so_collectionName options) = Some rows \<and> truthy (Some rows) \<longrightarrow>
      fst (searchCollections srv options w) = Inr rows"
    using responseRows_cases [where response = response and className = "so_collectionName options"
        and get = get and rows = rows]
    by (simp add: searchCollections_rows)
  have c: "handleSearch srv searchQuery selectedCollection st n selected w = (Inr delivered, v) \<longrightarrow>
      (\<exists>found. fst (searchCollections srv
                  \<lparr>so_query = searchQuery, so_collectionName = selectedCollection,
                   so_searchType = Some st, so_limit = Some n,
                   so_properties = (if length selected > 0 then Some selected else None)\<rparr>
                  (initializeWeaviate w)) = Inr (JArray found) \<and>
               delivered = map normalizeResult found) \<and>
      (\<forall>row \<in> set delivered. truthy (member row ''_additional''))"
  proof
    assume h: "handleSearch srv searchQuery selectedCollection st n selected w = (Inr delivered, v)"
    from handleSearch_delivers [OF h] obtain found where
      f: "fst (searchCollections srv
                  \<lparr>so_query = searchQuery, so_collectionName = selectedCollection,
                   so_searchType = Some st, so_limit = Some n,
                   so_properties = (if length selected > 0 then Some selected else None)\<rparr>
                  (initializeWeaviate w)) = Inr (JArray found)"
      and d: "delivered = map normalizeResult found" by blast
    from d have "\<forall>row \<in> set delivered. truthy (member row ''_additional'')"
      by (auto simp: normalizeResult_additional)
    with f d show "(\<exists>found. fst (searchCollections srv
                  \<lparr>so_query = searchQuery, so_collectionName = selectedCollection,
                   so_searchType = Some st, so_limit = Some n,
                   so_properties = (if length selected > 0 then Some selected else None)\<rparr>
                  (initializeWeaviate w)) = Inr (JArray found) \<and>
               delivered = map normalizeResult found) \<and>
      (\<forall>row \<in> set delivered. truthy (member row ''_additional''))" by blast
  qed
  from a b c normalizeResult_object [of kvs] normalizeResult_not_object [of row]
  show ?thesis by (simp add: defaultAdditional_def)
qed

lemma ex_handleSearch:
  "fst (handleSearch (ex_search_store (JObject [(''Article'', ex_rows)])) ''whales'' ''Article''
          Bm25 10 [] ex_world) =
     Inr [JObject [(''_additional'', JObject [(''id'', JString ''a'')]), (''title'', JString ''Whales'')],
          JObject [(''title'', JString ''Eels''), (''_additional'', defaultAdditional)]]"
  by code_simp

theorem sidecar_defaulted_by_search_view_witness:
  "fst (getCollectionData (ex_get_store (JObject [(''Article'', ex_rows)])) ''Article'' ex_columns None
          (Some 10) (Some 0) ex_world) = Inr ex_rows \<and>
   fst (searchCollections (ex_search_store (JObject [(''Article'', ex_rows)])) ex_options ex_world) =
     Inr ex_rows \<and>
   fst (handleSearch (ex_search_store (JObject [(''Article'', ex_rows)])) ''whales'' ''Article''
          Bm25 10 [] ex_world) =
     Inr [JObject [(''_additional'', JObject [(''id'', JString ''a'')]), (''title'', JString ''Whales'')],
          JObject [(''title'', JString ''Eels''), (''_additional'', defaultAdditional)]] \<and>
   truthy (member (JObject [(''title'', JString ''Eels''), (''_additional'', defaultAdditional)])
             ''_additional'') \<and>
   normalizeResult (JObject [(''title'', JString ''Eels'')]) =
     JObject [(''title'', JString ''Eels''), (''_additional'', defaultAdditional)] \<and>
   normalizeResult (JNumber 5) = JObject [(''_additional'', defaultAdditional)]"
proof -
  let ?g = "JObject [(''Article'', ex_rows)]"
  let ?full = "JObject [(''data'', JObject [(''Get'', ?g)])]"
  let ?ok = "\<lparr>status = 200, statusText = ''OK'', bodyText = '''', parsed = Some ?full\<rparr>"
  let ?q = "collectionDataQuery ''Article'' ex_columns None (Some 10) (Some 0)"
  let ?sq = "graphqlQuery (so_collectionName ex_options) (searchDirective ex_options)
      (limitValue ex_options) (propertiesToFetch ex_collections (so_collectionName ex_options))"
  let ?delivered = "[JObject [(''_additional'', JObject [(''id'', JString ''a'')]), (''title'', JString ''Whales'')],
          JObject [(''title'', JString ''Eels''), (''_additional'', defaultAdditional)]]"
  let ?v = "snd (handleSearch (ex_search_store ?g) ''whales'' ''Article'' Bm25 10 [] ex_world)"
  note T = sidecar_defaulted_by_search_view [where w = ex_world and className = "''Article''"
      and columns = ex_columns and sort' = None and lim = "Some 10" and offset = "Some 0"
      and r = ?ok and response = ?full and get = ?g and rows = ex_rows
      and collections = ex_collections and w' = ex_listed_world and options = ex_options
      and searchQuery = "''whales''" and selectedCollection = "''Article''" and st = Bm25
      and n = 10 and selected = "[]" and delivered = ?delivered and v = ?v
      and kvs = "[(''title'', JString ''Eels'')]" and row = "JNumber 5"]
  note cfg = ex_world_configured
  have okr: "ok ?ok" by (simp add: ok_def)
  have par: "parsed ?ok = Some ?full" by simp
  have n3: "so_collectionName ex_options = ''Article''" by (simp add: ex_options_def)
  have g: "opt_prop (opt_prop (Some ?full) ''data'') ''Get'' = Some ?g \<and> truthy (Some ?g) \<and>
      member ?g ''Article'' = Some ex_rows \<and> truthy (Some ex_rows)"
    by (simp add: opt_prop_def ex_rows_def)
  have s1: "ex_get_store ?g (sent ex_world) (graphqlRequest (initializeWeaviate ex_world) ?q) =
      Response ?ok"
    by (simp add: ex_get_store_def)
  from T [where srv = "ex_get_store ?g"] cfg s1 okr par g
  have 1: "fst (getCollectionData (ex_get_store ?g) ''Article'' ex_columns None (Some 10) (Some 0)
      ex_world) = Inr ex_rows"
    by metis
  have s2: "ex_search_store ?g (sent ex_listed_world) (graphqlRequest (initializeWeaviate ex_world) ?sq) =
      Response ?ok"
    by (simp add: ex_search_store_def ex_get_store_def ex_listed_world_def)
  note S = T [where srv = "ex_search_store ?g"]
  from S cfg ex_getCollections [of ?g] s2 okr par g n3
  have 2: "fst (searchCollections (ex_search_store ?g) ex_options ex_world) = Inr ex_rows"
    by metis
  have h: "handleSearch (ex_search_store ?g) ''whales'' ''Article'' Bm25 10 [] ex_world =
      (Inr ?delivered, ?v)"
    using ex_handleSearch by (metis prod.collapse)
  from S h have all: "\<forall>row \<in> set ?delivered. truthy (member row ''_additional'')"
    by blast
  then have 4: "truthy (member (JObject [(''title'', JString ''Eels''), (''_additional'', defaultAdditional)])
             ''_additional'')"
    by simp
  have nt: "\<not> truthy (map_of [(''title'', JString ''Eels'')] ''_additional'')" by simp
  from S nt have 5: "normalizeResult (JObject [(''title'', JString ''Eels'')]) =
     JObject [(''title'', JString ''Eels''), (''_additional'', defaultAdditional)]"
    by simp
  have "\<not> isObject (JNumber 5)" by simp
  with S have 6: "normalizeResult (JNumber 5) = JObject [(''_additional'', defaultAdditional)]"
    by blast
  from 1 2 ex_handleSearch 4 5 6 show ?thesis by blast
qed

subsection \<open>The defaults of a search\<close>

lemma graphqlQuery_limit:
  "sublist (''limit: '' @ numberToString n @ ''\<newline>'') (graphqlQuery name directive n toFetch)"
proof -
  have "graphqlQuery name directive n toFetch =
      (''{\<newline>      Get {\<newline>        '' @ name @ ''(\<newline>          '' @ directive @
       ''\<newline>          '') @
      (''limit: '' @ numberToString n @ ''\<newline>'') @
      (''        ) {\<newline>          _additional {\<newline>            id\<newline>            score\<newline>          }\<newline>          '' @
       toFetch @ ''\<newline>        }\<newline>      }\<newline>    }'')"
    by (simp add: graphqlQuery_def)
  then show ?thesis by (simp only: sublist_appendI)
qed

lemma graphqlQuery_directive: "sublist directive (graphqlQuery name directive n toFetch)"
proof -
  have "graphqlQuery name directive n toFetch =
      (''{\<newline>      Get {\<newline>        '' @ name @ ''(\<newline>          '') @ directive @
      (''\<newline>          limit: '' @ numberToString n @
       ''\<newline>        ) {\<newline>          _additional {\<newline>            id\<newline>            score\<newline>          }\<newline>          '' @
       toFetch @ ''\<newline>        }\<newline>      }\<newline>    }'')"
    by (simp add: graphqlQuery_def)
  then show ?thesis by (simp only: sublist_appendI)
qed

lemma numberToString_10: "numberToString 10 = ''10''"
  by code_simp

lemma searchCollections_sent:
  assumes conf: "\<not> notConfigured (initializeWeaviate w)"
    and cols: "getCollections srv (initializeWeaviate w) = (Inr collections, w')"
  shows "sent (snd (searchCollections srv options w)) =
           sent w' @ [graphqlRequest (initializeWeaviate w)
                        (graphqlQuery (so_collectionName options) (searchDirective options)
                           (limitValue options)
                           (propertiesToFetch collections (so_collectionName options)))]"
proof -
  let ?q = "graphqlQuery (so_collectionName options) (searchDirective options) (limitValue options)
                 (propertiesToFetch collections (so_collectionName options))"
  note k = getCollections_keeps [OF cols]
  have p: "persisted w' = persisted w" using k(1) by (simp add: initializeWeaviate_simps)
  have cu: "currentUrl w' = currentUrl (initializeWeaviate w)"
    and ck: "currentApiKey w' = currentApiKey (initializeWeaviate w)"
    using k(2) p by (metis initializeWeaviate_simps(1), metis initializeWeaviate_simps(2))
  have req: "graphqlRequest w' ?q = graphqlRequest (initializeWeaviate w) ?q"
    by (rule graphqlRequest_cong [OF cu ck])
  have nc: "\<not> notConfigured w'" using conf cu by (simp add: notConfigured_def)
  obtain res w3 where e: "executeQuery srv ?q w' = (res, w3)"
    by (cases "executeQuery srv ?q w'")
  have "sent (snd (executeQuery srv ?q w')) = sent w' @ [graphqlRequest w' ?q]"
    using k(2) nc
    by (simp add: executeQuery_def Let_def fetch_def split: fetch_result.splits option.splits)
  with e have s3: "sent w3 = sent w' @ [graphqlRequest (initializeWeaviate w) ?q]"
    by (simp add: req)
  from conf cols e have "snd (searchCollections srv options w) = w3"
    by (cases res) (simp_all add: searchCollections_def Let_def)
  with s3 show ?thesis by simp
qed

text \<open>
  C10. When the search type is absent the directive of the search is the \<^verbatim>\<open>bm25\<close> one, and
  the query document contains it. When the limit is absent or 0 the limit of the document is
  10 and the document contains the line \<^verbatim>\<open>limit: 10\<close>; a limit that is given and not 0
  is the limit of the document as it is and the document contains the line with its
  numeral. With a configured url and a schema listing that succeeds, this document is the
  query of the request that \<^verbatim>\<open>searchCollections\<close> makes next.
\<close>

theorem search_defaults:
  "(so_searchType options = None \<longrightarrow>
      searchDirective options =
        ''bm25: { query: '' @ dquote @ so_query options @ dquote @
        (if propertiesList (so_properties options) \<noteq> []
         then '', properties: ['' @ propertiesList (so_properties options) @ '']'' else []) @ '' }'' \<and>
      sublist (''bm25: { query: '' @ dquote @ so_query options @ dquote)
        (graphqlQuery name (searchDirective options) (limitValue options) toFetch)) \<and>
   (so_limit options = None \<or> so_limit options = Some 0 \<longrightarrow>
      limitValue options = 10 \<and>
      sublist ''limit: 10\<newline>''
        (graphqlQuery name (searchDirective options) (limitValue options) toFetch)) \<and>
   (so_limit options = Some n \<and> n \<noteq> 0 \<longrightarrow>
      limitValue options = n \<and>
      sublist (''limit: '' @ numberToString n @ ''\<newline>'')
        (graphqlQuery name (searchDirective options) (limitValue options) toFetch)) \<and>
   (\<not> notConfigured (initializeWeaviate w) \<and>
    getCollections srv (initializeWeaviate w) = (Inr collections, w') \<longrightarrow>
      sent (snd (searchCollections srv options w)) =
        sent w' @ [graphqlRequest (initializeWeaviate w)
                     (graphqlQuery (so_collectionName options) (searchDirective options)
                        (limitValue options)
                        (propertiesToFetch collections (so_collectionName options)))])"
proof (intro conjI impI)
  assume t: "so_searchType options = None"
  then show d: "searchDirective options =
        ''bm25: { query: '' @ dquote @ so_query options @ dquote @
        (if propertiesList (so_properties options) \<noteq> []
         then '', properties: ['' @ propertiesList (so_properties options) @ '']'' else []) @ '' }''"
    by (simp add: searchDirective_def effectiveSearchType_def)
  have "sublist (''bm25: { query: '' @ dquote @ so_query options @ dquote) (searchDirective options)"
    by (subst d) (metis append.assoc sublist_append_rightI)
  then show "sublist (''bm25: { query: '' @ dquote @ so_query options @ dquote)
        (graphqlQuery name (searchDirective options) (limitValue options) toFetch)"
    using graphqlQuery_directive sublist_order.order_trans by blast
next
  assume "so_limit options = None \<or> so_limit options = Some 0"
  then show l: "limitValue options = 10"
    by (auto simp: limitValue_def)
  from graphqlQuery_limit [of 10 name "searchDirective options" toFetch]
  show "sublist ''limit: 10\<newline>''
        (graphqlQuery name (searchDirective options) (limitValue options) toFetch)"
    by (simp add: l numberToString_10)
next
  assume "so_limit options = Some n \<and> n \<noteq> 0"
  then show l: "limitValue options = n"
    by (auto simp: limitValue_def)
  from graphqlQuery_limit [of n name "searchDirective options" toFetch]
  show "sublist (''limit: '' @ numberToString n @ ''\<newline>'')
        (graphqlQuery name (searchDirective options) (limitValue options) toFetch)"
    by (simp add: l)
next
  assume "\<not> notConfigured (initializeWeaviate w) \<and>
    getCollections srv (initializeWeaviate w) = (Inr collections, w')"
  then show "sent (snd (searchCollections srv options w)) =
        sent w' @ [graphqlRequest (initializeWeaviate w)
                     (graphqlQuery (so_collectionName options) (searchDirective options)
                        (limitValue options)
                        (propertiesToFetch collections (so_collectionName options)))]"
    by (simp add: searchCollections_sent)
qed

lemma ex_search_values:
  "propertiesToFetch ex_collections ''Article'' = ''title''"
  "numberToString 25 = ''25''"
  "propertiesList (so_properties ex_options) = []"
  by code_simp+

theorem search_defaults_witness:
  "searchDirective ex_options = ''bm25: { query: '' @ dquote @ ''whales'' @ dquote @ '' }'' \<and>
   limitValue ex_options = 10 \<and>
   limitValue (ex_options\<lparr>so_limit := Some 0\<rparr>) = 10 \<and>
   limitValue (ex_options\<lparr>so_limit := Some 25\<rparr>) = 25 \<and>
   sublist (''bm25: { query: '' @ dquote @ ''whales'' @ dquote)
     (graphqlQuery ''Article'' (searchDirective ex_options) (limitValue ex_options) ''title'') \<and>
   sublist ''limit: 10\<newline>''
     (graphqlQuery ''Article'' (searchDirective ex_options) (limitValue ex_options) ''title'') \<and>
   sublist ''limit: 25\<newline>''
     (graphqlQuery ''Article'' (searchDirective (ex_options\<lparr>so_limit := Some 25\<rparr>))
        (limitValue (ex_options\<lparr>so_limit := Some 25\<rparr>)) ''title'') \<and>
   sent (snd (searchCollections (ex_search_store (JObject [])) ex_options ex_world)) =
     sent ex_listed_world @
     [graphqlRequest (initializeWeaviate ex_world)
        (graphqlQuery ''Article'' (searchDirective ex_options) 10 ''title'')]"
proof -
  have o: "so_searchType ex_options = None" "so_limit ex_options = None"
    "so_query ex_options = ''whales''" "so_collectionName ex_options = ''Article''"
    by (simp_all add: ex_options_def)
  note A = search_defaults [where options = ex_options and name = "''Article''"
      and toFetch = "''title''" and srv = "ex_search_store (JObject [])" and w = ex_world
      and collections = ex_collections and w' = ex_listed_world]
  note B = search_defaults [where options = "ex_options\<lparr>so_limit := Some 0\<rparr>"
      and name = "''Article''" and toFetch = "''title''" and n = 0
      and srv = "ex_search_store (JObject [])" and w = ex_world
      and collections = ex_collections and w' = ex_listed_world]
  note C = search_defaults [where options = "ex_options\<lparr>so_limit := Some 25\<rparr>" and n = 25
      and name = "''Article''" and toFetch = "''title''"
      and srv = "ex_search_store (JObject [])" and w = ex_world
      and collections = ex_collections and w' = ex_listed_world]
  have h0: "so_limit (ex_options\<lparr>so_limit := Some 0\<rparr>) = None \<or>
      so_limit (ex_options\<lparr>so_limit := Some 0\<rparr>) = Some 0" by simp
  have h25: "so_limit (ex_options\<lparr>so_limit := Some 25\<rparr>) = Some 25 \<and> (25::int) \<noteq> 0"
    by simp
  from A o(1) have d: "searchDirective ex_options =
        ''bm25: { query: '' @ dquote @ so_query ex_options @ dquote @
        (if propertiesList (so_properties ex_options) \<noteq> []
         then '', properties: ['' @ propertiesList (so_properties ex_options) @ '']'' else []) @ '' }''"
    by blast
  have 1: "searchDirective ex_options =
      ''bm25: { query: '' @ dquote @ ''whales'' @ dquote @ '' }''"
    by (subst d) (simp add: o(3) ex_search_values(3))
  from A o(2) have 2: "limitValue ex_options = 10" by blast
  from B h0 have 3: "limitValue (ex_options\<lparr>so_limit := Some 0\<rparr>) = 10" by blast
  from C h25 have 4: "limitValue (ex_options\<lparr>so_limit := Some 25\<rparr>) = 25" by blast
  from A o(1) have "sublist (''bm25: { query: '' @ dquote @ so_query ex_options @ dquote)
     (graphqlQuery ''Article'' (searchDirective ex_options) (limitValue ex_options) ''title'')"
    by blast
  then have 5: "sublist (''bm25: { query: '' @ dquote @ ''whales'' @ dquote)
     (graphqlQuery ''Article'' (searchDirective ex_options) (limitValue ex_options) ''title'')"
    by (simp only: o(3))
  from A o(2) have 6: "sublist ''limit: 10\<newline>''
     (graphqlQuery ''Article'' (searchDirective ex_options) (limitValue ex_options) ''title'')"
    by blast
  from C h25 have "sublist (''limit: '' @ numberToString 25 @ ''\<newline>'')
     (graphqlQuery ''Article'' (searchDirective (ex_options\<lparr>so_limit := Some 25\<rparr>))
        (limitValue (ex_options\<lparr>so_limit := Some 25\<rparr>)) ''title'')"
    by blast
  then have 7: "sublist ''limit: 25\<newline>''
     (graphqlQuery ''Article'' (searchDirective (ex_options\<lparr>so_limit := Some 25\<rparr>))
        (limitValue (ex_options\<lparr>so_limit := Some 25\<rparr>)) ''title'')"
    by (simp only: ex_search_values(2) append.simps)
  from A ex_world_configured ex_getCollections [of "JObject []"]
  have "sent (snd (searchCollections (ex_search_store (JObject [])) ex_options ex_world)) =
     sent ex_listed_world @
     [graphqlRequest (initializeWeaviate ex_world)
        (graphqlQuery (so_collectionName ex_options) (searchDirective ex_options)
           (limitValue ex_options) (propertiesToFetch ex_collections (so_collectionName ex_options)))]"
    by blast
  then have 8: "sent (snd (searchCollections (ex_search_store (JObject [])) ex_options ex_world)) =
     sent ex_listed_world @
     [graphqlRequest (initializeWeaviate ex_world)
        (graphqlQuery ''Article'' (searchDirective ex_options) 10 ''title'')]"
    by (simp only: o(4) 2 ex_search_values(1))
  from 1 2 3 4 5 6 7 8 show ?thesis by blast
qed


end
